theory Spec2Isabelle
  imports Complex_Main "HOL-Library.Multiset"
begin

section \<open>Failures\<close>

text \<open>
  Every way in which the modelled C++ leaves a function other than by \<^verbatim>\<open>return\<close> is a
  value of \<open>error\<close>.  \<^verbatim>\<open>MADNESS_ASSERT(c)\<close> that fails is \<open>AssertionFailure\<close> with the
  text of \<open>c\<close>; \<^verbatim>\<open>MADNESS_EXCEPTION(msg,1)\<close> is \<open>MadnessException msg\<close>; a bare
  \<^verbatim>\<open>throw "..."\<close> is \<open>Thrown\<close>; a failure raised inside the tensor library is
  \<open>TensorException\<close>; dereferencing a null shared pointer is \<open>NullDereference\<close>; a read
  through a raw pointer outside the array it points into is \<open>OutOfBounds\<close>.
\<close>

datatype error =
    AssertionFailure string
  | MadnessException string
  | Thrown string
  | TensorException string
  | NullDereference
  | OutOfBounds

section \<open>mra.h: the function handle\<close>

subsection \<open>The container behind a handle\<close>

text \<open>
  Modelled from the spec: \<^verbatim>\<open>FunctionImpl\<close> (funcimpl.h) is not part of the sources at hand.
  The spec's data model gives a node a coefficient array and a has-children flag, and the
  container its nodes by Address together with the metadata (polynomial order, threshold,
  dimensionality; kept together in \<open>params\<close>), the current representation flag and the
  distribution map, a function from Address to owning compute unit.
\<close>

record 'c node =
  coeff :: 'c
  has_children :: bool

record ('k, 'c, 'm) FunctionImpl =
  params :: 'm
  compressed :: bool
  pmap :: "'k \<Rightarrow> nat"
  nodes :: "'k \<rightharpoonup> 'c node"

text \<open>
  Modelled from the spec: \<^verbatim>\<open>FunctionImpl::is_compressed\<close> reads the representation flag.
\<close>

definition impl_is_compressed :: "('k, 'c, 'm) FunctionImpl \<Rightarrow> bool" where
  "impl_is_compressed i = compressed i"

text \<open>
  Modelled from the spec: the constructor \<^verbatim>\<open>FunctionImpl(other, pmap)\<close> used by the deep
  copy makes a container with the metadata and representation of \<open>other\<close> and no nodes yet,
  under the distribution map \<open>pmap\<close> when one is given (a non-null pointer) and under the
  map of \<open>other\<close> otherwise; \<^verbatim>\<open>copy_coeffs(other)\<close> then gives it a copy of every node of
  \<open>other\<close>.
\<close>

definition FunctionImpl_copy ::
  "('k, 'c, 'm) FunctionImpl \<Rightarrow> ('k \<Rightarrow> nat) option \<Rightarrow> ('k, 'c, 'm) FunctionImpl" where
  "FunctionImpl_copy other p =
     \<lparr>params = params other, compressed = compressed other,
      pmap = (case p of None \<Rightarrow> pmap other | Some q \<Rightarrow> q), nodes = Map.empty\<rparr>"

definition copy_coeffs ::
  "('k, 'c, 'm) FunctionImpl \<Rightarrow> ('k, 'c, 'm) FunctionImpl \<Rightarrow> ('k, 'c, 'm) FunctionImpl" where
  "copy_coeffs this other = this\<lparr>nodes := nodes other\<rparr>"

subsection \<open>Memory and the world\<close>

text \<open>
  The containers live in a heap indexed by address; \<open>next_free\<close> is the first address
  never handed out, so \<^verbatim>\<open>new\<close> returns it and moves it on.  Everything the
  communication substrate holds (queued messages, pending futures, the other compute
  units) is the component \<open>world\<close>: an operation that issues no communication leaves it
  as it is.  Reference counts of the shared pointer are not kept: no container is ever
  reclaimed in the model.
\<close>

record ('k, 'c, 'm, 'w) state =
  heap :: "nat \<Rightarrow> ('k, 'c, 'm) FunctionImpl"
  next_free :: nat
  world :: 'w

text \<open>\<^verbatim>\<open>SharedPtr< FunctionImpl<T,NDIM> > impl\<close>: \<open>None\<close> is the null pointer.\<close>

record Function =
  impl :: "nat option"

definition verify :: "Function \<Rightarrow> error + unit" where
  "verify f = (if impl f \<noteq> None then Inr () else Inl (AssertionFailure ''impl''))"

text \<open>\<^verbatim>\<open>*impl\<close> and \<^verbatim>\<open>impl->\<close>.\<close>

definition deref :: "Function \<Rightarrow> ('k, 'c, 'm, 'w) state \<Rightarrow> error + ('k, 'c, 'm) FunctionImpl" where
  "deref f s = (case impl f of None \<Rightarrow> Inl NullDereference | Some a \<Rightarrow> Inr (heap s a))"

text \<open>Writing through \<^verbatim>\<open>impl->\<close>: the container at the handle's address is replaced.\<close>

definition store :: "Function \<Rightarrow> ('k, 'c, 'm) FunctionImpl \<Rightarrow> ('k, 'c, 'm, 'w) state \<Rightarrow>
    ('k, 'c, 'm, 'w) state" where
  "store f i s = (case impl f of None \<Rightarrow> s | Some a \<Rightarrow> s\<lparr>heap := (heap s)(a := i)\<rparr>)"

subsection \<open>Constructors and assignment\<close>

text \<open>\<^verbatim>\<open>Function() : impl(0)\<close>.\<close>

definition Function_default :: "('k, 'c, 'm, 'w) state \<Rightarrow> Function \<times> ('k, 'c, 'm, 'w) state" where
  "Function_default s = (\<lparr>impl = None\<rparr>, s)"

text \<open>
  \<^verbatim>\<open>Function(const factoryT& factory) : impl(new FunctionImpl<T,NDIM>(factory))\<close>.
  The constructor of the container from a factory is not among the sources; it is the
  parameter \<open>impl_new\<close>, which may communicate and may fail.
\<close>

definition Function_factory ::
  "('f \<Rightarrow> 'w \<Rightarrow> error + ('k, 'c, 'm) FunctionImpl \<times> 'w) \<Rightarrow> 'f \<Rightarrow> ('k, 'c, 'm, 'w) state \<Rightarrow>
     error + Function \<times> ('k, 'c, 'm, 'w) state" where
  "Function_factory impl_new factory s =
     (case impl_new factory (world s) of
        Inl e \<Rightarrow> Inl e
      | Inr (i, w) \<Rightarrow>
          Inr (\<lparr>impl = Some (next_free s)\<rparr>,
               s\<lparr>heap := (heap s)(next_free s := i), next_free := Suc (next_free s), world := w\<rparr>))"

text \<open>\<^verbatim>\<open>Function(const Function<T,NDIM>& f) : impl(f.impl)\<close>.\<close>

definition Function_copy :: "Function \<Rightarrow> ('k, 'c, 'm, 'w) state \<Rightarrow> Function \<times> ('k, 'c, 'm, 'w) state" where
  "Function_copy f s = (\<lparr>impl = impl f\<rparr>, s)"

text \<open>
  \<^verbatim>\<open>operator=\<close>: \<^verbatim>\<open>if (this != &f) impl = f.impl; return *this;\<close>.  The test compares
  the addresses of two handle objects, so the handles are kept in a store \<open>hs\<close> of
  handle objects and \<open>this\<close> and \<open>f\<close> are addresses in it.
\<close>

definition operator_assign ::
  "nat \<Rightarrow> nat \<Rightarrow> (nat \<Rightarrow> Function) \<Rightarrow> ('k, 'c, 'm, 'w) state \<Rightarrow> (nat \<Rightarrow> Function) \<times> ('k, 'c, 'm, 'w) state" where
  "operator_assign this f hs s =
     (if this \<noteq> f then (hs(this := (hs this)\<lparr>impl := impl (hs f)\<rparr>), s) else (hs, s))"

subsection \<open>Member functions\<close>

text \<open>
  \<^verbatim>\<open>eval\<close>: \<^verbatim>\<open>verify(); impl->user_to_sim(xuser,xsim); Future<T> result;
  impl->eval(xsim, impl->key0(), result.remote_ref(impl->world)); return result;\<close>.
  The three members of the container are parameters; \<open>impl_eval\<close> returns the future
  it was given to fulfil and the world after the requests it issued.
\<close>

definition eval ::
  "(('k, 'c, 'm) FunctionImpl \<Rightarrow> 'x \<Rightarrow> 'x) \<Rightarrow> (('k, 'c, 'm) FunctionImpl \<Rightarrow> 'k) \<Rightarrow>
   (('k, 'c, 'm) FunctionImpl \<Rightarrow> 'x \<Rightarrow> 'k \<Rightarrow> 'w \<Rightarrow> error + 'r \<times> 'w) \<Rightarrow>
   'x \<Rightarrow> Function \<Rightarrow> ('k, 'c, 'm, 'w) state \<Rightarrow> error + 'r \<times> ('k, 'c, 'm, 'w) state" where
  "eval user_to_sim key0 impl_eval xuser f s =
     (case verify f of
        Inl e \<Rightarrow> Inl e
      | Inr _ \<Rightarrow>
         (case deref f s of
            Inl e \<Rightarrow> Inl e
          | Inr i \<Rightarrow>
             (case impl_eval i (user_to_sim i xuser) (key0 i) (world s) of
                Inl e \<Rightarrow> Inl e
              | Inr (result, w) \<Rightarrow> Inr (result, s\<lparr>world := w\<rparr>))))"

text \<open>\<^verbatim>\<open>is_compressed\<close>: \<^verbatim>\<open>if (impl) return impl->is_compressed(); else return false;\<close>.\<close>

definition is_compressed :: "Function \<Rightarrow> ('k, 'c, 'm, 'w) state \<Rightarrow> bool \<times> ('k, 'c, 'm, 'w) state" where
  "is_compressed f s =
     (case impl f of Some a \<Rightarrow> (impl_is_compressed (heap s a), s) | None \<Rightarrow> (False, s))"

text \<open>
  \<^verbatim>\<open>compress\<close>: \<^verbatim>\<open>if (!impl || is_compressed()) return; impl->compress(fence);\<close>.
  The transform of the container is the parameter \<open>impl_compress\<close>: it gives the
  container and the world after the transform, or fails.
\<close>

definition compress ::
  "(bool \<Rightarrow> ('k, 'c, 'm) FunctionImpl \<Rightarrow> 'w \<Rightarrow> error + ('k, 'c, 'm) FunctionImpl \<times> 'w) \<Rightarrow>
   bool \<Rightarrow> Function \<Rightarrow> ('k, 'c, 'm, 'w) state \<Rightarrow> error + ('k, 'c, 'm, 'w) state" where
  "compress impl_compress fence f s =
     (if impl f = None \<or> fst (is_compressed f s) then Inr s
      else (case deref f s of
              Inl e \<Rightarrow> Inl e
            | Inr i \<Rightarrow>
               (case impl_compress fence i (world s) of
                  Inl e \<Rightarrow> Inl e
                | Inr (i', w) \<Rightarrow> Inr ((store f i' s)\<lparr>world := w\<rparr>))))"

text \<open>
  \<^verbatim>\<open>reconstruct\<close>: \<^verbatim>\<open>if (!impl || !is_compressed()) return; impl->reconstruct(fence);\<close>.
\<close>

definition reconstruct ::
  "(bool \<Rightarrow> ('k, 'c, 'm) FunctionImpl \<Rightarrow> 'w \<Rightarrow> error + ('k, 'c, 'm) FunctionImpl \<times> 'w) \<Rightarrow>
   bool \<Rightarrow> Function \<Rightarrow> ('k, 'c, 'm, 'w) state \<Rightarrow> error + ('k, 'c, 'm, 'w) state" where
  "reconstruct impl_reconstruct fence f s =
     (if impl f = None \<or> \<not> fst (is_compressed f s) then Inr s
      else (case deref f s of
              Inl e \<Rightarrow> Inl e
            | Inr i \<Rightarrow>
               (case impl_reconstruct fence i (world s) of
                  Inl e \<Rightarrow> Inl e
                | Inr (i', w) \<Rightarrow> Inr ((store f i' s)\<lparr>world := w\<rparr>))))"

text \<open>
  \<^verbatim>\<open>print_tree\<close>: \<^verbatim>\<open>if (impl) impl->print_tree();\<close>.  The collective printing of the
  container is the parameter \<open>impl_print_tree\<close>, acting on the world.
\<close>

definition print_tree ::
  "(('k, 'c, 'm) FunctionImpl \<Rightarrow> 'w \<Rightarrow> error + 'w) \<Rightarrow> Function \<Rightarrow> ('k, 'c, 'm, 'w) state \<Rightarrow>
     error + ('k, 'c, 'm, 'w) state" where
  "print_tree impl_print_tree f s =
     (if impl f \<noteq> None
      then (case deref f s of
              Inl e \<Rightarrow> Inl e
            | Inr i \<Rightarrow> (case impl_print_tree i (world s) of Inl e \<Rightarrow> Inl e | Inr w \<Rightarrow> Inr (s\<lparr>world := w\<rparr>)))
      else Inr s)"

text \<open>\<^verbatim>\<open>get_impl\<close>: \<^verbatim>\<open>verify(); return impl;\<close>.\<close>

definition get_impl :: "Function \<Rightarrow> ('k, 'c, 'm, 'w) state \<Rightarrow> error + nat option \<times> ('k, 'c, 'm, 'w) state" where
  "get_impl f s = (case verify f of Inl e \<Rightarrow> Inl e | Inr _ \<Rightarrow> Inr (impl f, s))"

text \<open>
  \<^verbatim>\<open>copy\<close>: \<^verbatim>\<open>Function<T,NDIM> result; result.impl = SharedPtr<implT>(new implT(*impl,pmap));
  result.impl->copy_coeffs(*impl); return result;\<close>.  There is no \<^verbatim>\<open>verify()\<close> here: on a
  null handle \<^verbatim>\<open>*impl\<close> dereferences the null pointer.  Whatever \<^verbatim>\<open>copy_coeffs\<close> sends to
  move nodes to their owners under the new map is the parameter \<open>send_coeffs\<close>.
\<close>

definition copy ::
  "(('k, 'c, 'm) FunctionImpl \<Rightarrow> 'w \<Rightarrow> 'w) \<Rightarrow> ('k \<Rightarrow> nat) option \<Rightarrow> Function \<Rightarrow> ('k, 'c, 'm, 'w) state \<Rightarrow>
     error + Function \<times> ('k, 'c, 'm, 'w) state" where
  "copy send_coeffs p f s =
     (case deref f s of
        Inl e \<Rightarrow> Inl e
      | Inr other \<Rightarrow>
          (let a = next_free s;
               result = \<lparr>impl = Some a\<rparr>;
               s1 = s\<lparr>heap := (heap s)(a := FunctionImpl_copy other p), next_free := Suc a\<rparr>
           in (case deref result s1 of
                 Inl e \<Rightarrow> Inl e
               | Inr i \<Rightarrow>
                   Inr (result, (store result (copy_coeffs i other) s1)\<lparr>world := send_coeffs i (world s1)\<rparr>))))"

text \<open>The free function \<^verbatim>\<open>madness::copy(f, pmap)\<close>: \<^verbatim>\<open>return f.copy(pmap);\<close>.\<close>

definition madness_copy ::
  "(('k, 'c, 'm) FunctionImpl \<Rightarrow> 'w \<Rightarrow> 'w) \<Rightarrow> Function \<Rightarrow> ('k \<Rightarrow> nat) option \<Rightarrow> ('k, 'c, 'm, 'w) state \<Rightarrow>
     error + Function \<times> ('k, 'c, 'm, 'w) state" where
  "madness_copy send_coeffs f p s = copy send_coeffs p f s"


subsection \<open>A small world for concrete runs\<close>

text \<open>
  Concrete containers and stand-ins for the transforms, used where a statement is run
  on an explicit input.  The world is a counter of the messages issued so far; each
  stand-in issues one message, so a call that reaches the container is visible in the
  world.  Address 0 holds a reconstructed container, address 1 a compressed one.
\<close>

definition sample_impl :: "(nat, int list, unit) FunctionImpl" where
  "sample_impl = \<lparr>params = (), compressed = False, pmap = (\<lambda>k. 0),
     nodes = [0 \<mapsto> \<lparr>coeff = [1, 2], has_children = False\<rparr>]\<rparr>"

definition sample_state :: "(nat, int list, unit, nat) state" where
  "sample_state =
     \<lparr>heap = (\<lambda>a. if a = 0 then sample_impl else sample_impl\<lparr>compressed := True\<rparr>),
      next_free = 2, world = 0\<rparr>"

definition counting_compress ::
  "bool \<Rightarrow> (nat, int list, unit) FunctionImpl \<Rightarrow> nat \<Rightarrow> error + (nat, int list, unit) FunctionImpl \<times> nat" where
  "counting_compress fence i w = Inr (i\<lparr>compressed := True\<rparr>, Suc w)"

definition counting_reconstruct ::
  "bool \<Rightarrow> (nat, int list, unit) FunctionImpl \<Rightarrow> nat \<Rightarrow> error + (nat, int list, unit) FunctionImpl \<times> nat" where
  "counting_reconstruct fence i w = Inr (i\<lparr>compressed := False\<rparr>, Suc w)"

definition counting_print_tree :: "(nat, int list, unit) FunctionImpl \<Rightarrow> nat \<Rightarrow> error + nat" where
  "counting_print_tree i w = Inr (Suc w)"

definition counting_eval ::
  "(nat, int list, unit) FunctionImpl \<Rightarrow> int \<Rightarrow> nat \<Rightarrow> nat \<Rightarrow> error + int \<times> nat" where
  "counting_eval i x k w = Inr (x, Suc w)"

definition counting_send :: "(nat, int list, unit) FunctionImpl \<Rightarrow> nat \<Rightarrow> nat" where
  "counting_send i w = Suc w"

section \<open>Error plumbing and raw arrays\<close>

text \<open>Sequencing: the first failure leaves the function, as a thrown exception does.\<close>

definition bind :: "error + 'a \<Rightarrow> ('a \<Rightarrow> error + 'b) \<Rightarrow> error + 'b" where
  "bind m f = (case m of Inl e \<Rightarrow> Inl e | Inr x \<Rightarrow> f x)"

text \<open>A loop over a list that builds one result per element, in order.\<close>

fun mapM :: "('a \<Rightarrow> error + 'b) \<Rightarrow> 'a list \<Rightarrow> error + 'b list" where
  "mapM f [] = Inr []"
| "mapM f (x # xs) = bind (f x) (\<lambda>y. bind (mapM f xs) (\<lambda>ys. Inr (y # ys)))"

text \<open>A loop over a list that updates the loop state, in order.\<close>

fun foldM :: "('a \<Rightarrow> 's \<Rightarrow> error + 's) \<Rightarrow> 'a list \<Rightarrow> 's \<Rightarrow> error + 's" where
  "foldM f [] s = Inr s"
| "foldM f (x # xs) s = bind (f x s) (foldM f xs)"

text \<open>\<^verbatim>\<open>for (long j=0; j<n; j++)\<close> where iteration \<open>j\<close> produces element \<open>j\<close>.\<close>

definition for_upto :: "nat \<Rightarrow> (nat \<Rightarrow> error + 'a) \<Rightarrow> error + 'a list" where
  "for_upto n body = mapM body [0..<n]"

text \<open>
  A tensor is its flat storage, a list; the default-constructed (empty) tensor is \<open>[]\<close>
  and its \<^verbatim>\<open>ptr()\<close> is the null pointer.  \<open>rd p i\<close> is the read \<^verbatim>\<open>p[i]\<close> through the raw
  pointer to the storage: outside the storage it is \<open>OutOfBounds\<close>.  \<open>vec_at v i\<close> is
  \<^verbatim>\<open>v[i]\<close> on a \<^verbatim>\<open>std::vector\<close>.
\<close>

definition rd :: "'a list \<Rightarrow> int \<Rightarrow> error + 'a" where
  "rd p i = (if 0 \<le> i \<and> i < int (length p) then Inr (p ! nat i) else Inl OutOfBounds)"

definition vec_at :: "'a list \<Rightarrow> nat \<Rightarrow> error + 'a" where
  "vec_at v i = (if i < length v then Inr (v ! i) else Inl OutOfBounds)"

section \<open>Arithmetic on \<^verbatim>\<open>double\<close>\<close>

text \<open>
  The arithmetic of \<^verbatim>\<open>double\<close> is a parameter of every numerical function below: the
  literals that occur in the sources, the operations \<^verbatim>\<open>+ - *\<close> and the comparisons
  \<^verbatim>\<open><\<close> and \<^verbatim>\<open>!=\<close>.  What is proved for every such arithmetic holds for the machine's.
\<close>

record 'd arith =
  f0 :: 'd
  f1 :: 'd
  f2 :: 'd
  f4 :: 'd
  f1em14 :: 'd
  f1em12 :: 'd
  fadd :: "'d \<Rightarrow> 'd \<Rightarrow> 'd"
  fsub :: "'d \<Rightarrow> 'd \<Rightarrow> 'd"
  fmul :: "'d \<Rightarrow> 'd \<Rightarrow> 'd"
  flt :: "'d \<Rightarrow> 'd \<Rightarrow> bool"
  fne :: "'d \<Rightarrow> 'd \<Rightarrow> bool"

text \<open>\<^verbatim>\<open>std::max(a, b)\<close> is \<^verbatim>\<open>(a < b) ? b : a\<close>.\<close>

definition std_max :: "'d arith \<Rightarrow> 'd \<Rightarrow> 'd \<Rightarrow> 'd" where
  "std_max ar a b = (if flt ar a b then b else a)"

text \<open>\<^verbatim>\<open>isnan_x\<close>: \<^verbatim>\<open>volatile double y = x; return x != y;\<close>.\<close>

definition isnan_x :: "'d arith \<Rightarrow> 'd \<Rightarrow> bool" where
  "isnan_x ar x = fne ar x x"

subsection \<open>A concrete arithmetic: binary64 without exponent bounds\<close>

text \<open>
  For runs on explicit inputs: \<open>Fin m e\<close> is the number \<open>m * 2 ^ e\<close> and \<open>NaN\<close> is
  not-a-number.  Results are rounded to 53 significant bits, to nearest with ties to
  even, as IEEE 754 binary64 does; the exponent is unbounded, so there is neither
  overflow to infinity nor gradual underflow.  NaN propagates through every operation and
  compares unequal to everything, itself included.
\<close>

datatype double = NaN | Fin int int

function bit_length :: "int \<Rightarrow> int" where
  "bit_length n = (if n \<le> 0 then 0 else 1 + bit_length (n div 2))"
  by pat_completeness auto
termination
  by (relation "measure nat") auto

declare bit_length.simps [simp del]

definition round53 :: "int \<Rightarrow> int \<Rightarrow> double" where
  "round53 m e =
     (let k = bit_length \<bar>m\<bar> - 53
      in if k \<le> 0 then Fin m e
         else (let d = 2 ^ nat k;
                   q = \<bar>m\<bar> div d;
                   r = \<bar>m\<bar> mod d;
                   h = d div 2;
                   q' = (if h < r \<or> (r = h \<and> odd q) then q + 1 else q)
               in Fin (sgn m * q') (e + k)))"

text \<open>Both mantissas over the smaller of the two exponents.\<close>

definition aligned :: "int \<Rightarrow> int \<Rightarrow> int \<Rightarrow> int \<Rightarrow> int \<times> int" where
  "aligned m1 e1 m2 e2 = (m1 * 2 ^ nat (e1 - min e1 e2), m2 * 2 ^ nat (e2 - min e1 e2))"

fun b64_add :: "double \<Rightarrow> double \<Rightarrow> double" where
  "b64_add (Fin m1 e1) (Fin m2 e2) =
     (case aligned m1 e1 m2 e2 of (a, b) \<Rightarrow> round53 (a + b) (min e1 e2))"
| "b64_add _ _ = NaN"

fun b64_sub :: "double \<Rightarrow> double \<Rightarrow> double" where
  "b64_sub (Fin m1 e1) (Fin m2 e2) =
     (case aligned m1 e1 m2 e2 of (a, b) \<Rightarrow> round53 (a - b) (min e1 e2))"
| "b64_sub _ _ = NaN"

fun b64_mul :: "double \<Rightarrow> double \<Rightarrow> double" where
  "b64_mul (Fin m1 e1) (Fin m2 e2) = round53 (m1 * m2) (e1 + e2)"
| "b64_mul _ _ = NaN"

fun b64_lt :: "double \<Rightarrow> double \<Rightarrow> bool" where
  "b64_lt (Fin m1 e1) (Fin m2 e2) = (case aligned m1 e1 m2 e2 of (a, b) \<Rightarrow> a < b)"
| "b64_lt _ _ = False"

fun b64_ne :: "double \<Rightarrow> double \<Rightarrow> bool" where
  "b64_ne (Fin m1 e1) (Fin m2 e2) = (case aligned m1 e1 m2 e2 of (a, b) \<Rightarrow> a \<noteq> b)"
| "b64_ne _ _ = True"

text \<open>
  The doubles nearest to \<^verbatim>\<open>1.e-14\<close> and \<^verbatim>\<open>1e-12\<close> are
  \<^verbatim>\<open>0x1.6849b86a12b9bp-47\<close> and \<^verbatim>\<open>0x1.19799812dea11p-40\<close>.
\<close>

definition binary64 :: "double arith" where
  "binary64 =
     \<lparr>f0 = Fin 0 0, f1 = Fin 1 0, f2 = Fin 2 0, f4 = Fin 4 0,
      f1em14 = Fin 6338253001141147 (- 99), f1em12 = Fin 4951760157141521 (- 92),
      fadd = b64_add, fsub = b64_sub, fmul = b64_mul, flt = b64_lt, fne = b64_ne\<rparr>"

subsection \<open>An exact arithmetic\<close>

text \<open>The rationals, where no operation rounds.\<close>

definition exact :: "rat arith" where
  "exact =
     \<lparr>f0 = 0, f1 = 1, f2 = 2, f4 = 4, f1em14 = 1 / 10 ^ 14, f1em12 = 1 / 10 ^ 12,
      fadd = (+), fsub = (-), fmul = (*), flt = (<), fne = (\<noteq>)\<rparr>"

section \<open>xcfunctional_libxc.cc\<close>

subsection \<open>What the headers and libxc provide\<close>

text \<open>
  The family of a functional, \<^verbatim>\<open>func->info->family\<close>: the four the sources name, and
  \<open>XC_FAMILY_OTHER\<close> for every other value of the field.
\<close>

datatype xc_family =
  XC_FAMILY_LDA | XC_FAMILY_GGA | XC_FAMILY_HYB_GGA | XC_FAMILY_MGGA | XC_FAMILY_OTHER

record xc_func_type =
  family :: xc_family
  number :: int

text \<open>
  The enumerators of \<^verbatim>\<open>xc_arg\<close> and of \<^verbatim>\<open>xc_contribution\<close> that the sources use;
  \<open>other_contribution\<close> is any further enumerator of \<^verbatim>\<open>xc_contribution\<close>.
\<close>

datatype xc_arg =
  enum_rhoa | enum_rhob | enum_rho_pt | enum_chi_aa | enum_chi_ab | enum_chi_bb
  | enum_sigma_pta_div_rho

datatype xc_contribution =
  potential_rho | potential_same_spin | potential_mixed_spin
  | kernel_second_local | kernel_second_semilocal | kernel_first_semilocal
  | other_contribution

text \<open>
  What is declared outside the sources is a parameter: the value of each \<^verbatim>\<open>xc_arg\<close>
  enumerator (\<open>enum_value\<close>), the members \<^verbatim>\<open>munge\<close> and \<^verbatim>\<open>binary_munge\<close> of the
  class, and the routines of libxc.  A libxc routine is given the functional, the
  number of points and its input arrays, and fills its output arrays: the model has it
  return, for each output array, the value found at each index after the call.
\<close>

record 'd XCfunctional =
  spin_polarized :: bool
  nderiv :: int
  funcs :: "(xc_func_type \<times> 'd) list"
  hf_coeff :: 'd
  rhomin :: 'd
  rhotol :: 'd
  ggatol :: 'd

record 'd xc_env =
  enum_value :: "xc_arg \<Rightarrow> nat"
  munge :: "'d XCfunctional \<Rightarrow> 'd \<Rightarrow> 'd"
  binary_munge :: "'d XCfunctional \<Rightarrow> 'd \<Rightarrow> 'd \<Rightarrow> 'd"
  xc_lda_exc :: "xc_func_type \<Rightarrow> nat \<Rightarrow> 'd list \<Rightarrow> nat \<Rightarrow> 'd"
  xc_gga_exc :: "xc_func_type \<Rightarrow> nat \<Rightarrow> 'd list \<Rightarrow> 'd list \<Rightarrow> nat \<Rightarrow> 'd"
  xc_lda_vxc :: "xc_func_type \<Rightarrow> nat \<Rightarrow> 'd list \<Rightarrow> nat \<Rightarrow> 'd"
  xc_gga_vxc :: "xc_func_type \<Rightarrow> nat \<Rightarrow> 'd list \<Rightarrow> 'd list \<Rightarrow> (nat \<Rightarrow> 'd) \<times> (nat \<Rightarrow> 'd)"
  xc_lda_fxc :: "xc_func_type \<Rightarrow> nat \<Rightarrow> 'd list \<Rightarrow> nat \<Rightarrow> 'd"
  xc_gga_fxc ::
    "xc_func_type \<Rightarrow> nat \<Rightarrow> 'd list \<Rightarrow> 'd list \<Rightarrow> (nat \<Rightarrow> 'd) \<times> (nat \<Rightarrow> 'd) \<times> (nat \<Rightarrow> 'd)"

text \<open>An output array of \<open>n\<close> elements after a libxc routine has filled it.\<close>

definition filled :: "nat \<Rightarrow> (nat \<Rightarrow> 'd) \<Rightarrow> 'd list" where
  "filled n out = map out [0..<n]"

text \<open>\<^verbatim>\<open>Tensor<double>(n)\<close>: \<open>n\<close> elements, all zero.\<close>

definition zeros :: "'d arith \<Rightarrow> nat \<Rightarrow> 'd list" where
  "zeros ar n = replicate n (f0 ar)"

text \<open>
  The tensor library is not among the sources.  Its elementwise operations on two
  tensors work on the flat storage and fail when the two sizes differ; multiplying by a
  scalar cannot fail.
\<close>

definition tensor_zip :: "('d \<Rightarrow> 'd \<Rightarrow> 'd) \<Rightarrow> 'd list \<Rightarrow> 'd list \<Rightarrow> error + 'd list" where
  "tensor_zip f a b =
     (if length a = length b then Inr (map2 f a b)
      else Inl (TensorException ''tensors do not conform''))"

definition emul :: "'d arith \<Rightarrow> 'd list \<Rightarrow> 'd list \<Rightarrow> error + 'd list" where
  "emul ar a b = tensor_zip (fmul ar) a b"

definition tensor_add :: "'d arith \<Rightarrow> 'd list \<Rightarrow> 'd list \<Rightarrow> error + 'd list" where
  "tensor_add ar a b = tensor_zip (fadd ar) a b"

definition scale_left :: "'d arith \<Rightarrow> 'd \<Rightarrow> 'd list \<Rightarrow> 'd list" where
  "scale_left ar x a = map (\<lambda>y. fmul ar x y) a"

definition scale_right :: "'d arith \<Rightarrow> 'd list \<Rightarrow> 'd \<Rightarrow> 'd list" where
  "scale_right ar a x = map (\<lambda>y. fmul ar y x) a"

subsection \<open>The class\<close>

definition is_lda :: "'d XCfunctional \<Rightarrow> bool" where
  "is_lda xc = (nderiv xc = 0)"

definition is_gga :: "'d XCfunctional \<Rightarrow> bool" where
  "is_gga xc = (nderiv xc = 1)"

definition is_meta :: "'d XCfunctional \<Rightarrow> bool" where
  "is_meta xc = (nderiv xc = 2)"

definition is_dft :: "'d XCfunctional \<Rightarrow> bool" where
  "is_dft xc = (0 < length (funcs xc))"

definition has_fxc :: "'d XCfunctional \<Rightarrow> bool" where
  "has_fxc xc = False"

definition has_kxc :: "'d XCfunctional \<Rightarrow> bool" where
  "has_kxc xc = False"

text \<open>
  \<^verbatim>\<open>x = v[e].ptr(); if (x==NULL) x = dummy.ptr();\<close> with \<^verbatim>\<open>dummy\<close> a zero tensor of
  \<open>np\<close> elements: "might happen if there are no beta electrons".
\<close>

definition or_dummy :: "'d arith \<Rightarrow> nat \<Rightarrow> 'd list \<Rightarrow> 'd list" where
  "or_dummy ar np x = (if x = [] then zeros ar np else x)"

text \<open>
  \<^verbatim>\<open>make_libxc_args\<close>.  The four tensors passed by reference are empty at every call in
  the sources; the function returns them as \<open>(rho, sigma, rho_pt, sigma_pt)\<close>, those
  it does not assign still empty.  In the spin-polarized branches the arrays are
  interleaved: \<open>dens[2i], dens[2i+1]\<close> and \<open>sig[3i], sig[3i+1], sig[3i+2]\<close>.
\<close>

definition make_libxc_args ::
  "'d arith \<Rightarrow> 'd xc_env \<Rightarrow> 'd XCfunctional \<Rightarrow> 'd list list \<Rightarrow> bool \<Rightarrow>
     error + 'd list \<times> 'd list \<times> 'd list \<times> 'd list" where
  "make_libxc_args ar env xc xc_args need_response =
     bind (vec_at xc_args 0) (\<lambda>t0.
     let np = length t0 in
     if \<not> spin_polarized xc then
       (if is_lda xc then
          bind (vec_at xc_args (enum_value env enum_rhoa)) (\<lambda>rhoa.
          bind (for_upto np (\<lambda>i. bind (rd rhoa (int i)) (\<lambda>r.
                  Inr (munge env xc (fmul ar (f2 ar) r))))) (\<lambda>dens.
          if need_response then
            bind (vec_at xc_args (enum_value env enum_rho_pt)) (\<lambda>rho_pt1.
            bind (for_upto np (\<lambda>i. bind (rd rho_pt1 (int i)) (\<lambda>p. bind (rd rhoa (int i)) (\<lambda>r.
                    Inr (binary_munge env xc p r))))) (\<lambda>dens_pt.
            Inr (dens, [], dens_pt, [])))
          else Inr (dens, [], [], [])))
        else if is_gga xc then
          bind (vec_at xc_args (enum_value env enum_rhoa)) (\<lambda>rhoa.
          bind (vec_at xc_args (enum_value env enum_chi_aa)) (\<lambda>chiaa.
          bind (for_upto np (\<lambda>i. bind (rd rhoa (int i)) (\<lambda>r. bind (rd chiaa (int i)) (\<lambda>c.
                  let d = munge env xc (fmul ar (f2 ar) r)
                  in Inr (d, std_max ar (f1em14 ar) (fmul ar (fmul ar d d) c)))))) (\<lambda>ds.
          let dens = map fst ds; sig = map snd ds in
          if need_response then
            bind (vec_at xc_args (enum_value env enum_rho_pt)) (\<lambda>rho_pt1.
            bind (vec_at xc_args (enum_value env enum_sigma_pta_div_rho)) (\<lambda>sig_pt1.
            bind (for_upto np (\<lambda>i. bind (rd rho_pt1 (int i)) (\<lambda>p. bind (rd rhoa (int i)) (\<lambda>r.
                    bind (rd dens (int i)) (\<lambda>d. bind (rd sig_pt1 (int i)) (\<lambda>s.
                    Inr (binary_munge env xc p r, fmul ar d s))))))) (\<lambda>ps.
            Inr (dens, sig, map fst ps, map snd ps))))
          else Inr (dens, sig, [], []))))
        else Inl (MadnessException ''only LDA and GGA available in xcfunctional''))
     else
       (if is_lda xc then
          bind (vec_at xc_args (enum_value env enum_rhoa)) (\<lambda>rhoa.
          bind (vec_at xc_args (enum_value env enum_rhob)) (\<lambda>rhob0.
          let rhob = or_dummy ar np rhob0 in
          bind (for_upto np (\<lambda>i. bind (rd rhoa (int i)) (\<lambda>a. bind (rd rhob (int i)) (\<lambda>b.
                  Inr [munge env xc a, munge env xc b])))) (\<lambda>ds.
          if need_response
          then Inl (MadnessException ''no spin polarized DFT response in xcfunctional'')
          else Inr (concat ds, [], [], []))))
        else if is_gga xc then
          bind (vec_at xc_args (enum_value env enum_rhoa)) (\<lambda>rhoa.
          bind (vec_at xc_args (enum_value env enum_rhob)) (\<lambda>rhob0.
          bind (vec_at xc_args (enum_value env enum_chi_aa)) (\<lambda>chiaa.
          bind (vec_at xc_args (enum_value env enum_chi_ab)) (\<lambda>chiab0.
          bind (vec_at xc_args (enum_value env enum_chi_bb)) (\<lambda>chibb0.
          let rhob = or_dummy ar np rhob0;
              chiab = or_dummy ar np chiab0;
              chibb = or_dummy ar np chibb0 in
          bind (for_upto np (\<lambda>i. bind (rd rhoa (int i)) (\<lambda>a. bind (rd rhob (int i)) (\<lambda>b.
                  bind (rd chiaa (int i)) (\<lambda>caa. bind (rd chiab (int i)) (\<lambda>cab.
                  bind (rd chibb (int i)) (\<lambda>cbb.
                  let ra = munge env xc a; rb = munge env xc b
                  in Inr ([ra, rb],
                          [std_max ar (f1em14 ar) (fmul ar (fmul ar ra ra) caa),
                           std_max ar (f1em14 ar) (fmul ar (fmul ar ra rb) cab),
                           std_max ar (f1em14 ar) (fmul ar (fmul ar rb rb) cbb)])))))))) (\<lambda>ds.
          if need_response
          then Inl (MadnessException ''no spin polarized DFT response in xcfunctional'')
          else Inr (concat (map fst ds), concat (map snd ds), [], []))))))) 
        else Inl (MadnessException ''only LDA and GGA available in xcfunctional'')))"

text \<open>
  \<^verbatim>\<open>exc\<close>.  The result tensor has the dimensions of \<^verbatim>\<open>t[0]\<close>, hence \<open>np\<close> elements,
  set to zero; each functional adds its energy density times the density.  The function
  returns the result as it is after the loop.
\<close>

definition exc_step ::
  "'d arith \<Rightarrow> 'd xc_env \<Rightarrow> 'd XCfunctional \<Rightarrow> nat \<Rightarrow> 'd list \<Rightarrow> 'd list \<Rightarrow>
     xc_func_type \<times> 'd \<Rightarrow> 'd list \<Rightarrow> error + 'd list" where
  "exc_step ar env xc np dens sig fw res =
     bind (case family (fst fw) of
             XC_FAMILY_LDA \<Rightarrow> Inr (filled np (xc_lda_exc env (fst fw) np dens))
           | XC_FAMILY_GGA \<Rightarrow> Inr (filled np (xc_gga_exc env (fst fw) np dens sig))
           | XC_FAMILY_HYB_GGA \<Rightarrow> Inr (filled np (xc_gga_exc env (fst fw) np dens sig))
           | _ \<Rightarrow> Inl (Thrown ''HOW DID WE GET HERE?'')) (\<lambda>work.
     if spin_polarized xc then
       for_upto np (\<lambda>j. bind (rd res (int j)) (\<lambda>r. bind (rd work (int j)) (\<lambda>w.
         bind (rd dens (2 * int j + 1)) (\<lambda>d1. bind (rd dens (2 * int j)) (\<lambda>d0.
         Inr (fadd ar r (fmul ar (fmul ar w (fadd ar d1 d0)) (snd fw))))))))
     else
       for_upto np (\<lambda>j. bind (rd res (int j)) (\<lambda>r. bind (rd work (int j)) (\<lambda>w.
         bind (rd dens (int j)) (\<lambda>d.
         Inr (fadd ar r (fmul ar (fmul ar w d) (snd fw))))))))"

definition exc :: "'d arith \<Rightarrow> 'd xc_env \<Rightarrow> 'd XCfunctional \<Rightarrow> 'd list list \<Rightarrow> error + 'd list" where
  "exc ar env xc t =
     bind (make_libxc_args ar env xc t False) (\<lambda>(rho, sigma, rho_pt, sigma_pt).
     bind (vec_at t 0) (\<lambda>t0.
     let np = length t0 in
     foldM (exc_step ar env xc np rho sigma) (funcs xc) (zeros ar np)))"

text \<open>The loop that ends \<^verbatim>\<open>vxc\<close> and \<^verbatim>\<open>fxc_apply\<close>: the first NaN among \<open>res[0..np)\<close> throws.\<close>

definition nan_check :: "'d arith \<Rightarrow> string \<Rightarrow> nat \<Rightarrow> 'd list \<Rightarrow> error + unit" where
  "nan_check ar msg np res =
     bind (for_upto np (\<lambda>j. bind (rd res (int j)) (\<lambda>r.
             if isnan_x ar r then Inl (MadnessException msg) else Inr ()))) (\<lambda>_. Inr ())"

text \<open>\<^verbatim>\<open>vxc\<close>.\<close>

definition vxc_step ::
  "'d arith \<Rightarrow> 'd xc_env \<Rightarrow> 'd XCfunctional \<Rightarrow> nat \<Rightarrow> 'd list \<Rightarrow> 'd list \<Rightarrow> int \<Rightarrow>
     xc_contribution \<Rightarrow> xc_func_type \<times> 'd \<Rightarrow> 'd list \<Rightarrow> error + 'd list" where
  "vxc_step ar env xc np dens sig ispin xc_contrib fw res =
     (let nvrho = (if spin_polarized xc then 2 else 1);
          nvsig = (if spin_polarized xc then 3 else 1)
      in case family (fst fw) of
        XC_FAMILY_LDA \<Rightarrow>
          (let vr = filled (nvrho * np) (xc_lda_vxc env (fst fw) np dens)
           in for_upto np (\<lambda>j. bind (rd res (int j)) (\<lambda>r.
                bind (rd vr (int nvrho * int j + ispin)) (\<lambda>v.
                Inr (fadd ar r (fmul ar v (snd fw)))))))
      | XC_FAMILY_MGGA \<Rightarrow> Inl (MadnessException ''unknown XC_FAMILY xcfunctional::vxc'')
      | XC_FAMILY_OTHER \<Rightarrow> Inl (MadnessException ''unknown XC_FAMILY xcfunctional::vxc'')
      | _ \<Rightarrow>
          (let out = xc_gga_vxc env (fst fw) np dens sig;
               vr = filled (nvrho * np) (fst out);
               vs = filled (nvsig * np) (snd out)
           in if spin_polarized xc then
                (if xc_contrib = potential_rho then
                   for_upto np (\<lambda>j. bind (rd res (int j)) (\<lambda>r.
                     bind (rd vr (int nvrho * int j + ispin)) (\<lambda>v.
                     Inr (fadd ar r (fmul ar v (snd fw))))))
                 else if xc_contrib = potential_same_spin then
                   for_upto np (\<lambda>j. bind (rd res (int j)) (\<lambda>r.
                     bind (rd vs (int nvsig * int j + 2 * ispin)) (\<lambda>v.
                     bind (rd dens (int nvrho * int j + ispin)) (\<lambda>d.
                     Inr (fadd ar r (fmul ar (fmul ar v (snd fw)) d))))))
                 else if xc_contrib = potential_mixed_spin then
                   for_upto np (\<lambda>j. bind (rd res (int j)) (\<lambda>r.
                     bind (rd vs (int nvsig * int j + 1)) (\<lambda>v.
                     bind (rd dens (int nvrho * int j + (1 - ispin))) (\<lambda>d.
                     Inr (fadd ar r (fmul ar (fmul ar v (snd fw)) d))))))
                 else Inl (Thrown ''ouch''))
              else
                (if xc_contrib = potential_rho then
                   for_upto np (\<lambda>j. bind (rd res (int j)) (\<lambda>r.
                     bind (rd vr (int j)) (\<lambda>v.
                     Inr (fadd ar r (fmul ar v (snd fw))))))
                 else if xc_contrib = potential_same_spin then
                   for_upto np (\<lambda>j. bind (rd res (int j)) (\<lambda>r.
                     bind (rd vs (int j)) (\<lambda>v.
                     bind (rd dens (int j)) (\<lambda>d.
                     Inr (fadd ar r (fmul ar (fmul ar v (snd fw)) d))))))
                 else Inl (Thrown ''ouch''))))"

definition vxc ::
  "'d arith \<Rightarrow> 'd xc_env \<Rightarrow> 'd XCfunctional \<Rightarrow> 'd list list \<Rightarrow> int \<Rightarrow> xc_contribution \<Rightarrow>
     error + 'd list" where
  "vxc ar env xc t ispin xc_contrib =
     bind (make_libxc_args ar env xc t False) (\<lambda>(rho, sigma, dummy1, dummy2).
     bind (vec_at t 0) (\<lambda>t0.
     let np = length t0 in
     bind (foldM (vxc_step ar env xc np rho sigma ispin xc_contrib) (funcs xc) (zeros ar np)) (\<lambda>res.
     bind (nan_check ar ''NaN in xcfunctional::vxc'' np res) (\<lambda>_.
     Inr res))))"

text \<open>
  \<^verbatim>\<open>fxc_apply\<close>.  The five intermediate tensors are allocated once, before the loop over
  the functionals, and a libxc call overwrites only those it is given: they are the
  loop state, with the result tensor.
\<close>

record 'd fxc_bufs =
  v2rho2 :: "'d list"
  v2rhosigma :: "'d list"
  v2sigma2 :: "'d list"
  vrho :: "'d list"
  vsigma :: "'d list"

definition fxc_call ::
  "'d xc_env \<Rightarrow> nat \<Rightarrow> 'd list \<Rightarrow> 'd list \<Rightarrow> xc_contribution \<Rightarrow> xc_func_type \<Rightarrow>
     'd fxc_bufs \<Rightarrow> error + 'd fxc_bufs" where
  "fxc_call env np rho sigma xc_contrib func b =
     (case family func of
        XC_FAMILY_LDA \<Rightarrow>
          Inr (b\<lparr>v2rho2 := filled (length (v2rho2 b)) (xc_lda_fxc env func np rho)\<rparr>)
      | XC_FAMILY_MGGA \<Rightarrow> Inl (MadnessException ''unknown XC_FAMILY xcfunctional::fxc'')
      | XC_FAMILY_OTHER \<Rightarrow> Inl (MadnessException ''unknown XC_FAMILY xcfunctional::fxc'')
      | _ \<Rightarrow>
          (if xc_contrib = kernel_second_semilocal \<or> xc_contrib = kernel_second_local then
             (case xc_gga_fxc env func np rho sigma of (vrr, vrs, vss) \<Rightarrow>
                Inr (b\<lparr>v2rho2 := filled (length (v2rho2 b)) vrr,
                       v2rhosigma := filled (length (v2rhosigma b)) vrs,
                       v2sigma2 := filled (length (v2sigma2 b)) vss\<rparr>))
           else if xc_contrib = kernel_first_semilocal then
             (case xc_gga_vxc env func np rho sigma of (vr, vs) \<Rightarrow>
                Inr (b\<lparr>vrho := filled (length (vrho b)) vr,
                       vsigma := filled (length (vsigma b)) vs\<rparr>))
           else Inr b))"

definition fxc_result1 ::
  "'d arith \<Rightarrow> 'd XCfunctional \<Rightarrow> 'd list \<Rightarrow> 'd list \<Rightarrow> xc_contribution \<Rightarrow> 'd fxc_bufs \<Rightarrow>
     error + 'd list" where
  "fxc_result1 ar xc rho_pt sigma_pt xc_contrib b =
     (if xc_contrib = kernel_second_local then
        bind (emul ar (v2rho2 b) rho_pt) (\<lambda>result1.
        if is_gga xc then
          bind (emul ar (v2rhosigma b) sigma_pt) (\<lambda>e.
          tensor_add ar result1 (scale_left ar (f2 ar) e))
        else Inr result1)
      else if xc_contrib = kernel_second_semilocal then
        bind (emul ar (v2rhosigma b) rho_pt) (\<lambda>e1.
        bind (emul ar (v2sigma2 b) sigma_pt) (\<lambda>e2.
        tensor_add ar (scale_left ar (f2 ar) e1) (scale_left ar (f4 ar) e2)))
      else if xc_contrib = kernel_first_semilocal then
        Inr (scale_left ar (f2 ar) (vsigma b))
      else Inl (MadnessException ''confused xc_contrib in fxc_apply''))"

definition fxc_step ::
  "'d arith \<Rightarrow> 'd xc_env \<Rightarrow> 'd XCfunctional \<Rightarrow> nat \<Rightarrow> 'd list \<Rightarrow> 'd list \<Rightarrow> 'd list \<Rightarrow> 'd list \<Rightarrow>
     xc_contribution \<Rightarrow> xc_func_type \<times> 'd \<Rightarrow> 'd fxc_bufs \<times> 'd list \<Rightarrow>
     error + 'd fxc_bufs \<times> 'd list" where
  "fxc_step ar env xc np rho sigma rho_pt sigma_pt xc_contrib fw st =
     bind (fxc_call env np rho sigma xc_contrib (fst fw) (fst st)) (\<lambda>b.
     bind (fxc_result1 ar xc rho_pt sigma_pt xc_contrib b) (\<lambda>result1.
     bind (tensor_add ar (snd st) (scale_right ar result1 (snd fw))) (\<lambda>result.
     Inr (b, result))))"

definition fxc_apply ::
  "'d arith \<Rightarrow> 'd xc_env \<Rightarrow> 'd XCfunctional \<Rightarrow> 'd list list \<Rightarrow> int \<Rightarrow> xc_contribution \<Rightarrow>
     error + 'd list" where
  "fxc_apply ar env xc t ispin xc_contrib =
     (if \<not> \<not> spin_polarized xc then Inl (AssertionFailure ''!spin_polarized'')
      else if \<not> ispin = 0 then Inl (AssertionFailure ''ispin==0'')
      else
        bind (make_libxc_args ar env xc t True) (\<lambda>(rho, sigma, rho_pt, sigma_pt).
        bind (vec_at t 0) (\<lambda>t0.
        let np = length t0;
            nspin = (if spin_polarized xc then 2 else 1);
            nspin2 = nspin * (nspin + 1) div 2;
            nspin3 = nspin2 * (nspin2 + 1) div 2;
            bufs = \<lparr>v2rho2 = zeros ar (nspin2 * np), v2rhosigma = zeros ar (nspin3 * np),
                    v2sigma2 = zeros ar (nspin3 * np), vrho = zeros ar (nspin * np),
                    vsigma = zeros ar (nspin2 * np)\<rparr>
        in
        bind (foldM (fxc_step ar env xc np rho sigma rho_pt sigma_pt xc_contrib) (funcs xc)
                (bufs, zeros ar np)) (\<lambda>st.
        bind (nan_check ar ''NaN in xcfunctional::fxc_apply'' np (snd st)) (\<lambda>_.
        Inr (snd st))))))"

section \<open>kain.cc\<close>

text \<open>
  A matrix is the list of its rows.  \<open>at2 Q i j\<close> is the element access \<^verbatim>\<open>Q(i,j)\<close>,
  \<open>OutOfBounds\<close> outside the tensor.
\<close>

definition at2 :: "'d list list \<Rightarrow> int \<Rightarrow> int \<Rightarrow> error + 'd" where
  "at2 Q i j = bind (rd Q i) (\<lambda>row. rd row j)"

text \<open>
  The loop that fills \<^verbatim>\<open>b\<close> and \<^verbatim>\<open>A\<close>: iteration \<open>i\<close> sets
  \<^verbatim>\<open>b(i) = Q(m,m) - Q(i,m)\<close> and then, for each \<open>j\<close>,
  \<^verbatim>\<open>A(i,j) = Q(i,j) - Q(m,j) - Q(i,m) + Q(m,m)\<close>.  It returns the pairs of \<open>b(i)\<close> and
  row \<open>i\<close> of \<open>A\<close>.
\<close>

definition KAIN_equations :: "'d arith \<Rightarrow> 'd list list \<Rightarrow> int \<Rightarrow> error + ('d \<times> 'd list) list" where
  "KAIN_equations ar Q m =
     for_upto (nat m) (\<lambda>i.
       bind (at2 Q m m) (\<lambda>qmm. bind (at2 Q (int i) m) (\<lambda>qim.
       bind (for_upto (nat m) (\<lambda>j.
               bind (at2 Q (int i) (int j)) (\<lambda>qij. bind (at2 Q m (int j)) (\<lambda>qmj.
               bind (at2 Q (int i) m) (\<lambda>qim. bind (at2 Q m m) (\<lambda>qmm.
               Inr (fadd ar (fsub ar (fsub ar qij qmj) qim) qmm))))))) (\<lambda>row.
       Inr (fsub ar qmm qim, row)))))"

text \<open>
  What follows the solver: \<^verbatim>\<open>Tensor<T> c(nvec); T sumC = 0.0;
  for (long i=0; i<m; i++) sumC += x(i); c(Slice(0,m-1)) = x; c(m) = 1.0 - sumC;\<close>.
  The slice \<^verbatim>\<open>Slice(0,m-1)\<close> includes its end, so it has \<open>m\<close> elements, and the
  assignment of \<open>x\<close> to it fails in the tensor library unless \<open>x\<close> has \<open>m\<close> elements.
\<close>

definition KAIN_coefficients :: "'d arith \<Rightarrow> int \<Rightarrow> int \<Rightarrow> 'd list \<Rightarrow> error + 'd list" where
  "KAIN_coefficients ar nvec m x =
     bind (foldM (\<lambda>i sumC. bind (rd x (int i)) (\<lambda>xi. Inr (fadd ar sumC xi)))
             [0..<nat m] (f0 ar)) (\<lambda>sumC.
     if length x \<noteq> nat m then Inl (TensorException ''tensors do not conform'')
     else Inr ((x @ drop (nat m) (zeros ar (nat nvec)))[nat m := fsub ar (f1 ar) sumC]))"

text \<open>
  \<^verbatim>\<open>KAIN\<close>.  The least-squares solver \<^verbatim>\<open>gelss(A, b, rcond, &x, &s, &rank)\<close> is LAPACK's,
  behind the tensor library: it is the parameter \<open>gelss\<close>, which returns the solution
  \<open>x\<close> or fails (the singular values and the rank are only printed).  With no row at all
  \<open>m\<close> is \<open>-1\<close> and the tensor library rejects the dimension of \<^verbatim>\<open>A(m,m)\<close>.
\<close>

definition KAIN ::
  "'d arith \<Rightarrow> ('d list list \<Rightarrow> 'd list \<Rightarrow> 'd \<Rightarrow> error + 'd list) \<Rightarrow> 'd list list \<Rightarrow> error + 'd list" where
  "KAIN ar gelss Q =
     (let nvec = int (length Q);
          m = nvec - 1
      in if nvec = 1 then Inr ((zeros ar 1)[0 := f1 ar])
         else if m < 0 then Inl (TensorException ''negative dimension'')
         else
           bind (KAIN_equations ar Q m) (\<lambda>bA.
           bind (gelss (map snd bA) (map fst bA) (f1em12 ar)) (\<lambda>x.
           KAIN_coefficients ar nvec m x)))"

text \<open>
  The system handed to the solver, as the comment above \<^verbatim>\<open>KAIN\<close> gives it: with
  \<open>m\<close> the last index, \<open>A(i,j) = Q(i,j) - Q(m,j) - Q(i,m) + Q(m,m)\<close> and
  \<open>b(i) = Q(m,m) - Q(i,m)\<close> for \<open>i, j < m\<close>.
\<close>

definition KAIN_A :: "'d arith \<Rightarrow> 'd list list \<Rightarrow> 'd list list" where
  "KAIN_A ar Q =
     (let m = length Q - 1
      in map (\<lambda>i. map (\<lambda>j. fadd ar (fsub ar (fsub ar (Q ! i ! j) (Q ! m ! j)) (Q ! i ! m)) (Q ! m ! m))
                     [0..<m]) [0..<m])"

definition KAIN_b :: "'d arith \<Rightarrow> 'd list list \<Rightarrow> 'd list" where
  "KAIN_b ar Q =
     (let m = length Q - 1
      in map (\<lambda>i. fsub ar (Q ! m ! m) (Q ! i ! m)) [0..<m])"

section \<open>Concrete inputs for the numerical functions\<close>

text \<open>
  For runs on explicit inputs, over the arithmetic \<open>binary64\<close>: the enumerators numbered
  in order; \<^verbatim>\<open>munge\<close> replacing a density below \<^verbatim>\<open>rhotol\<close> by \<^verbatim>\<open>rhomin\<close> (a NaN is not
  below anything and passes); libxc routines that return the density they are given, or
  the gradient array for the derivatives with respect to it; and one unpolarized LDA
  functional of weight 1 with the thresholds of the default constructor
  (\<^verbatim>\<open>rhotol=1e-7\<close>, \<^verbatim>\<open>rhomin=0.0\<close>, \<^verbatim>\<open>ggatol=1.e-4\<close>).
\<close>

definition sample_munge :: "double XCfunctional \<Rightarrow> double \<Rightarrow> double" where
  "sample_munge xc rho = (if b64_lt rho (rhotol xc) then rhomin xc else rho)"

definition sample_binary_munge :: "double XCfunctional \<Rightarrow> double \<Rightarrow> double \<Rightarrow> double" where
  "sample_binary_munge xc rho refrho = (if b64_lt refrho (rhotol xc) then rhomin xc else rho)"

fun sample_enum_value :: "xc_arg \<Rightarrow> nat" where
  "sample_enum_value enum_rhoa = 0"
| "sample_enum_value enum_rhob = 1"
| "sample_enum_value enum_rho_pt = 2"
| "sample_enum_value enum_chi_aa = 3"
| "sample_enum_value enum_chi_ab = 4"
| "sample_enum_value enum_chi_bb = 5"
| "sample_enum_value enum_sigma_pta_div_rho = 6"

definition echo :: "double list \<Rightarrow> nat \<Rightarrow> double" where
  "echo dens j = (if j < length dens then dens ! j else Fin 0 0)"

definition sample_env :: "double xc_env" where
  "sample_env =
     \<lparr>enum_value = sample_enum_value, munge = sample_munge, binary_munge = sample_binary_munge,
      xc_lda_exc = (\<lambda>f np dens. echo dens),
      xc_gga_exc = (\<lambda>f np dens sig. echo dens),
      xc_lda_vxc = (\<lambda>f np dens. echo dens),
      xc_gga_vxc = (\<lambda>f np dens sig. (echo dens, echo sig)),
      xc_lda_fxc = (\<lambda>f np dens. echo dens),
      xc_gga_fxc = (\<lambda>f np dens sig. (echo dens, echo sig, echo sig))\<rparr>"

definition sample_lda :: "double XCfunctional" where
  "sample_lda =
     \<lparr>spin_polarized = False, nderiv = 0,
      funcs = [(\<lparr>family = XC_FAMILY_LDA, number = 1\<rparr>, Fin 1 0)],
      hf_coeff = Fin 0 0, rhomin = Fin 0 0, rhotol = Fin 7555786372591432 (- 76),
      ggatol = Fin 7378697629483821 (- 66)\<rparr>"

text \<open>
  A solver for the one system \<open>-3 x = 4\<close>: over \<open>binary64\<close> it returns the double
  nearest to \<open>-4/3\<close>, which is \<^verbatim>\<open>-0x1.5555555555555p+0\<close>; over the rationals it
  returns \<open>-4/3\<close>.
\<close>

definition sample_gelss :: "double list list \<Rightarrow> double list \<Rightarrow> double \<Rightarrow> error + double list" where
  "sample_gelss A b rcond =
     (if A = [[Fin (- 3) 0]] \<and> b = [Fin 4 0] then Inr [Fin (- 6004799503160661) (- 52)]
      else Inl (TensorException ''gelss''))"

definition exact_gelss :: "rat list list \<Rightarrow> rat list \<Rightarrow> rat \<Rightarrow> error + rat list" where
  "exact_gelss A b rcond =
     (if A = [[- 3]] \<and> b = [4] then Inr [- 4 / 3] else Inl (TensorException ''gelss''))"

section \<open>Construction by adaptive refinement\<close>

text \<open>
  Modelled from the spec: the constructor \<^verbatim>\<open>FunctionImpl(factory)\<close> that
  \<^verbatim>\<open>Function(const factoryT&)\<close> calls (funcimpl.h) is not among the sources.  The spec's
  Address is a refinement level with one translation index per dimension; the root has
  level 0, and the children of a box have the next level and translation \<open>2t\<close> or
  \<open>2t+1\<close> on each axis.
\<close>

type_synonym Address = "nat \<times> nat list"

definition root_address :: "nat \<Rightarrow> Address" where
  "root_address d = (0, replicate d 0)"

definition children :: "Address \<Rightarrow> Address list" where
  "children a =
     map (\<lambda>bits. (Suc (fst a), map2 (\<lambda>t b. 2 * t + b) (snd a) bits))
       (List.n_lists (length (snd a)) [0, 1])"

text \<open>
  Modelled from the spec: the inputs of the construction are the sampling callback, the
  polynomial order, the threshold, the maximum level and the refine flag.  The numerical
  kernels are parameters: \<open>project\<close> samples the callback on a box and projects it onto
  the polynomial basis of the given order, and \<open>exceeds\<close> tells whether the truncation
  error estimated from these coefficients is above the threshold.
\<close>

record ('f, 'e) FunctionFactory =
  callback :: 'f
  order_k :: nat
  threshold :: 'e
  max_refine_level :: nat
  do_refine :: bool
  ndim :: nat

record ('f, 'c, 'e) numerics =
  project :: "'f \<Rightarrow> nat \<Rightarrow> Address \<Rightarrow> 'c"
  exceeds :: "'c \<Rightarrow> 'e \<Rightarrow> bool"

text \<open>
  Modelled from the spec: a box is refined "if error > \<open>\<epsilon>\<close> and level < max and refine is
  enabled"; then its children are materialized and its own coefficients discarded, so an
  internal node carries none, and otherwise it is a leaf with its scaling coefficients.
\<close>

definition splits :: "('f, 'c, 'e) numerics \<Rightarrow> ('f, 'e) FunctionFactory \<Rightarrow> Address \<Rightarrow> bool" where
  "splits nu fac a =
     (exceeds nu (project nu (callback fac) (order_k fac) a) (threshold fac) \<and>
      fst a < max_refine_level fac \<and> do_refine fac)"

definition project_node ::
  "('f, 'c, 'e) numerics \<Rightarrow> ('f, 'e) FunctionFactory \<Rightarrow> Address \<Rightarrow> 'c option node" where
  "project_node nu fac a =
     (if splits nu fac a then \<lparr>coeff = None, has_children = True\<rparr>
      else \<lparr>coeff = Some (project nu (callback fac) (order_k fac) a), has_children = False\<rparr>)"

text \<open>
  Modelled from the spec: the tree is built box by box, and the boxes waiting to be
  projected are tasks that the compute units take up in no imposed order.  A state is the
  list of waiting boxes and the tree so far; one step takes any waiting box, stores its
  node, and makes its children wait when it is refined.  A construction is a run from
  the root alone to a state where no box waits.
\<close>

inductive refine_step ::
  "('f, 'c, 'e) numerics \<Rightarrow> ('f, 'e) FunctionFactory \<Rightarrow>
   Address list \<times> (Address \<rightharpoonup> 'c option node) \<Rightarrow> Address list \<times> (Address \<rightharpoonup> 'c option node) \<Rightarrow> bool"
  for nu fac where
  "refine_step nu fac (xs @ a # ys, tree)
     (xs @ ys @ (if splits nu fac a then children a else []), tree(a \<mapsto> project_node nu fac a))"

code_pred refine_step .

definition constructs ::
  "('f, 'c, 'e) numerics \<Rightarrow> ('f, 'e) FunctionFactory \<Rightarrow> (Address \<rightharpoonup> 'c option node) \<Rightarrow> bool" where
  "constructs nu fac tree =
     rtranclp (refine_step nu fac) ([root_address (ndim fac)], Map.empty) ([], tree)"

text \<open>
  Modelled from the spec: the container that results holds the tree, the factory's
  parameters as metadata and the distribution map, in the reconstructed representation.
\<close>

definition constructed ::
  "('f, 'c, 'e) numerics \<Rightarrow> ('f, 'e) FunctionFactory \<Rightarrow> (Address \<Rightarrow> nat) \<Rightarrow>
   (Address, 'c option, ('f, 'e) FunctionFactory) FunctionImpl \<Rightarrow> bool" where
  "constructed nu fac pm i =
     (\<exists>tree. constructs nu fac tree \<and>
        i = \<lparr>params = fac, compressed = False, pmap = pm, nodes = tree\<rparr>)"

text \<open>The boxes that refinement reaches from the root.\<close>

inductive_set materialized ::
  "('f, 'c, 'e) numerics \<Rightarrow> ('f, 'e) FunctionFactory \<Rightarrow> Address set"
  for nu fac where
  root: "root_address (ndim fac) \<in> materialized nu fac"
| child: "a \<in> materialized nu fac \<Longrightarrow> splits nu fac a \<Longrightarrow> c \<in> set (children a) \<Longrightarrow>
     c \<in> materialized nu fac"

text \<open>
  What every state of a construction satisfies: a stored node is the node of its box;
  the root is stored or waiting; the children of a stored refined box are stored or
  waiting; and only boxes that refinement reaches are stored or waiting.
\<close>

definition refine_inv ::
  "('f, 'c, 'e) numerics \<Rightarrow> ('f, 'e) FunctionFactory \<Rightarrow>
   Address list \<times> (Address \<rightharpoonup> 'c option node) \<Rightarrow> bool" where
  "refine_inv nu fac st =
     (case st of (pending, tree) \<Rightarrow>
       (\<forall>b \<in> dom tree. tree b = Some (project_node nu fac b)) \<and>
       root_address (ndim fac) \<in> dom tree \<union> set pending \<and>
       (\<forall>b \<in> dom tree. splits nu fac b \<longrightarrow> set (children b) \<subseteq> dom tree \<union> set pending) \<and>
       dom tree \<union> set pending \<subseteq> materialized nu fac)"

text \<open>How far a box is from the level cap: what decreases from a box to its children.\<close>

definition height :: "('f, 'e) FunctionFactory \<Rightarrow> Address \<Rightarrow> nat" where
  "height fac a = max_refine_level fac - fst a"

text \<open>
  A concrete construction in one dimension with level cap 1: the root is refined and its
  two children are leaves.  \<open>sample_tree\<close> and \<open>sample_tree'\<close> are the trees in the
  order in which two different schedules store the children.
\<close>

definition sample_numerics :: "(Address \<Rightarrow> int, int, int) numerics" where
  "sample_numerics = \<lparr>project = (\<lambda>f k a. f a), exceeds = (\<lambda>c e. e < c)\<rparr>"

definition sample_factory :: "(Address \<Rightarrow> int, int) FunctionFactory" where
  "sample_factory =
     \<lparr>callback = (\<lambda>a. 5 + int (sum_list (snd a))), order_k = 9, threshold = 1,
      max_refine_level = 1, do_refine = True, ndim = 1\<rparr>"

definition sample_tree :: "Address \<rightharpoonup> int option node" where
  "sample_tree =
     [(0, [0]) \<mapsto> \<lparr>coeff = None, has_children = True\<rparr>,
      (1, [0]) \<mapsto> \<lparr>coeff = Some 5, has_children = False\<rparr>,
      (1, [1]) \<mapsto> \<lparr>coeff = Some 6, has_children = False\<rparr>]"

definition sample_tree' :: "Address \<rightharpoonup> int option node" where
  "sample_tree' =
     [(0, [0]) \<mapsto> \<lparr>coeff = None, has_children = True\<rparr>,
      (1, [1]) \<mapsto> \<lparr>coeff = Some 6, has_children = False\<rparr>,
      (1, [0]) \<mapsto> \<lparr>coeff = Some 5, has_children = False\<rparr>]"

section \<open>Auxiliary notions for the proofs\<close>

text \<open>A result that is not the failure of a \<^verbatim>\<open>MADNESS_ASSERT\<close>.\<close>

definition no_assert :: "error + 'a \<Rightarrow> bool" where
  "no_assert r = (\<forall>msg. r \<noteq> Inl (AssertionFailure msg))"

section \<open>Properties of the function handle\<close>

text \<open>
  The stand-ins do reach the container on an initialized handle in the other
  representation: compressing the reconstructed container at address 0 issues a message
  and sets its flag, and evaluation there issues one as well.
\<close>

lemma compress_sample_runs:
  "compress counting_compress True \<lparr>impl = Some 0\<rparr> sample_state =
     Inr (sample_state\<lparr>heap := (heap sample_state)(0 := sample_impl\<lparr>compressed := True\<rparr>), world := 1\<rparr>)"
  by (simp add: compress_def is_compressed_def impl_is_compressed_def deref_def store_def
      counting_compress_def sample_state_def sample_impl_def)

lemma eval_sample_runs:
  "eval (\<lambda>i x. x) (\<lambda>i. 0) counting_eval 5 \<lparr>impl = Some 0\<rparr> sample_state =
     Inr (5, sample_state\<lparr>world := 1\<rparr>)"
  by (simp add: eval_def verify_def deref_def counting_eval_def sample_state_def)

text \<open>
  C9.  \<^verbatim>\<open>is_compressed\<close> on an uninitialized handle (the one the default constructor
  makes, or any other with a null pointer) returns false: it does not fail.  On every
  handle it returns the state it was given, so the world (the communication substrate) is
  untouched.
\<close>

theorem is_compressed_uninitialized:
  "is_compressed (fst (Function_default s0)) s = (False, s) \<and>
   is_compressed \<lparr>impl = None\<rparr> s = (False, s) \<and>
   snd (is_compressed f s) = s"
  by (simp add: is_compressed_def Function_default_def split: option.split)

theorem is_compressed_uninitialized_witness:
  "is_compressed (fst (Function_default sample_state)) sample_state = (False, sample_state) \<and>
   snd (is_compressed \<lparr>impl = Some 1\<rparr> sample_state) = sample_state \<and>
   fst (is_compressed \<lparr>impl = Some 1\<rparr> sample_state)"
  using is_compressed_uninitialized [of sample_state sample_state "\<lparr>impl = Some 1\<rparr>"]
  by (simp add: is_compressed_def impl_is_compressed_def sample_state_def)

text \<open>
  C3.  \<^verbatim>\<open>compress\<close> on a handle whose container is already compressed, and
  \<^verbatim>\<open>reconstruct\<close> on one whose container is already reconstructed, return the state
  unchanged, the world included (no communication is issued); both do the same on an
  uninitialized handle.  This holds whatever the transforms of the container are.
\<close>

theorem compress_reconstruct_noop:
  "(impl f = None \<or> fst (is_compressed f s) \<longrightarrow> compress ic fence f s = Inr s) \<and>
   (impl f = None \<or> \<not> fst (is_compressed f s) \<longrightarrow> reconstruct ir fence f s = Inr s)"
  by (simp add: compress_def reconstruct_def)

theorem compress_reconstruct_noop_witness:
  "fst (is_compressed \<lparr>impl = Some 1\<rparr> sample_state) \<and>
   compress counting_compress True \<lparr>impl = Some 1\<rparr> sample_state = Inr sample_state \<and>
   \<not> fst (is_compressed \<lparr>impl = Some 0\<rparr> sample_state) \<and>
   reconstruct counting_reconstruct True \<lparr>impl = Some 0\<rparr> sample_state = Inr sample_state \<and>
   compress counting_compress True \<lparr>impl = None\<rparr> sample_state = Inr sample_state \<and>
   reconstruct counting_reconstruct True \<lparr>impl = None\<rparr> sample_state = Inr sample_state"
proof -
  have c: "fst (is_compressed \<lparr>impl = Some 1\<rparr> sample_state)"
    by (simp add: is_compressed_def impl_is_compressed_def sample_state_def)
  have r: "\<not> fst (is_compressed \<lparr>impl = Some 0\<rparr> sample_state)"
    by (simp add: is_compressed_def impl_is_compressed_def sample_state_def sample_impl_def)
  have n: "impl \<lparr>impl = None\<rparr> = None"
    by simp
  show ?thesis
    using c r n
      compress_reconstruct_noop [of "\<lparr>impl = Some 1\<rparr>" sample_state counting_compress True
        counting_reconstruct]
      compress_reconstruct_noop [of "\<lparr>impl = Some 0\<rparr>" sample_state counting_compress True
        counting_reconstruct]
      compress_reconstruct_noop [of "\<lparr>impl = None\<rparr>" sample_state counting_compress True
        counting_reconstruct]
    by blast
qed

text \<open>
  C1, as stated, fails: on an uninitialized handle \<^verbatim>\<open>compress\<close>, \<^verbatim>\<open>reconstruct\<close> and
  \<^verbatim>\<open>print_tree\<close> return normally with the state unchanged, and \<^verbatim>\<open>is_compressed\<close> returns
  false.  Each of them tests the pointer and returns before touching it.
\<close>

theorem uninitialized_handle_counterexample:
  "compress counting_compress True \<lparr>impl = None\<rparr> sample_state = Inr sample_state \<and>
   reconstruct counting_reconstruct True \<lparr>impl = None\<rparr> sample_state = Inr sample_state \<and>
   print_tree counting_print_tree \<lparr>impl = None\<rparr> sample_state = Inr sample_state \<and>
   is_compressed \<lparr>impl = None\<rparr> sample_state = (False, sample_state)"
  by (simp add: compress_def reconstruct_def print_tree_def is_compressed_def)

text \<open>
  C1, amended.  On an uninitialized handle the operations guarded by \<^verbatim>\<open>verify()\<close>,
  which are \<^verbatim>\<open>eval\<close> and \<^verbatim>\<open>get_impl\<close>, fail with the assertion on the handle's pointer;
  \<^verbatim>\<open>compress\<close>, \<^verbatim>\<open>reconstruct\<close> and \<^verbatim>\<open>print_tree\<close> return without doing anything and
  \<^verbatim>\<open>is_compressed\<close> returns false.
\<close>

theorem uninitialized_handle:
  "impl f = None \<Longrightarrow>
     eval user_to_sim key0 impl_eval xuser f s = Inl (AssertionFailure ''impl'') \<and>
     get_impl f s = Inl (AssertionFailure ''impl'') \<and>
     compress ic fence f s = Inr s \<and>
     reconstruct ir fence f s = Inr s \<and>
     print_tree pt f s = Inr s \<and>
     is_compressed f s = (False, s)"
  by (simp add: eval_def get_impl_def verify_def compress_def reconstruct_def print_tree_def
      is_compressed_def)

theorem uninitialized_handle_witness:
  "impl \<lparr>impl = None\<rparr> = None \<and>
   eval (\<lambda>i x. x) (\<lambda>i. 0) counting_eval 5 \<lparr>impl = None\<rparr> sample_state =
     Inl (AssertionFailure ''impl'') \<and>
   get_impl \<lparr>impl = None\<rparr> sample_state = Inl (AssertionFailure ''impl'') \<and>
   compress counting_compress True \<lparr>impl = None\<rparr> sample_state = Inr sample_state \<and>
   reconstruct counting_reconstruct True \<lparr>impl = None\<rparr> sample_state = Inr sample_state \<and>
   print_tree counting_print_tree \<lparr>impl = None\<rparr> sample_state = Inr sample_state \<and>
   is_compressed \<lparr>impl = None\<rparr> sample_state = (False, sample_state)"
proof -
  have n: "impl \<lparr>impl = None\<rparr> = None"
    by simp
  show ?thesis
    using n uninitialized_handle [OF n, of "\<lambda>i x. x" "\<lambda>i. 0" counting_eval 5 sample_state
        counting_compress True counting_reconstruct counting_print_tree]
    by simp
qed

text \<open>
  C5.  The copy constructor and the assignment are shallow: the new handle is the old
  one (the same pointer, hence the same container), no other handle changes, and the
  state, with its heap of containers and its world, is as before.  The explicit
  \<^verbatim>\<open>copy\<close> (of which the free function \<^verbatim>\<open>madness::copy\<close> is a synonym) of an
  initialized handle returns a handle to a newly allocated address,
  different from the source's; every container that existed is left as it was; the new
  container has the nodes, metadata and representation of the source, under the given
  distribution map when there is one and under the source's otherwise; and a later
  \<^verbatim>\<open>compress\<close> through the new handle does not touch the source's container.
\<close>

theorem copy_shallow_and_deep:
  "Function_copy f s = (f, s) \<and>
   fst (operator_assign this g hs s) this = hs g \<and>
   (\<forall>h. h \<noteq> this \<longrightarrow> fst (operator_assign this g hs s) h = hs h) \<and>
   snd (operator_assign this g hs s) = s \<and>
   madness_copy send_coeffs f p s = copy send_coeffs p f s \<and>
   (\<forall>a. impl f = Some a \<and> a < next_free s \<longrightarrow>
      (\<exists>s'. copy send_coeffs p f s = Inr (\<lparr>impl = Some (next_free s)\<rparr>, s') \<and>
            Some (next_free s) \<noteq> impl f \<and>
            next_free s' = Suc (next_free s) \<and>
            (\<forall>b. b \<noteq> next_free s \<longrightarrow> heap s' b = heap s b) \<and>
            nodes (heap s' (next_free s)) = nodes (heap s a) \<and>
            params (heap s' (next_free s)) = params (heap s a) \<and>
            compressed (heap s' (next_free s)) = compressed (heap s a) \<and>
            pmap (heap s' (next_free s)) = (case p of None \<Rightarrow> pmap (heap s a) | Some q \<Rightarrow> q) \<and>
            (\<forall>ic fence s''. compress ic fence \<lparr>impl = Some (next_free s)\<rparr> s' = Inr s'' \<longrightarrow>
                heap s'' a = heap s a)))"
proof (intro conjI allI impI)
  show "Function_copy f s = (f, s)"
    by (simp add: Function_copy_def)
  show "fst (operator_assign this g hs s) this = hs g"
    by (simp add: operator_assign_def)
  show "\<And>h. h \<noteq> this \<Longrightarrow> fst (operator_assign this g hs s) h = hs h"
    by (simp add: operator_assign_def)
  show "snd (operator_assign this g hs s) = s"
    by (simp add: operator_assign_def)
  show "madness_copy send_coeffs f p s = copy send_coeffs p f s"
    by (simp add: madness_copy_def)
next
  fix a
  assume a: "impl f = Some a \<and> a < next_free s"
  define i where "i = copy_coeffs (FunctionImpl_copy (heap s a) p) (heap s a)"
  define s' where "s' = s\<lparr>heap := (heap s)(next_free s := i), next_free := Suc (next_free s),
      world := send_coeffs (FunctionImpl_copy (heap s a) p) (world s)\<rparr>"
  have c: "copy send_coeffs p f s = Inr (\<lparr>impl = Some (next_free s)\<rparr>, s')"
    using a by (simp add: copy_def deref_def store_def s'_def i_def Let_def)
  have ind: "heap s'' a = heap s a"
    if "compress ic fence \<lparr>impl = Some (next_free s)\<rparr> s' = Inr s''" for ic fence s''
    using that a
    by (auto simp: compress_def deref_def store_def s'_def is_compressed_def
        split: if_splits sum.splits)
  show "\<exists>s'. copy send_coeffs p f s = Inr (\<lparr>impl = Some (next_free s)\<rparr>, s') \<and>
            Some (next_free s) \<noteq> impl f \<and>
            next_free s' = Suc (next_free s) \<and>
            (\<forall>b. b \<noteq> next_free s \<longrightarrow> heap s' b = heap s b) \<and>
            nodes (heap s' (next_free s)) = nodes (heap s a) \<and>
            params (heap s' (next_free s)) = params (heap s a) \<and>
            compressed (heap s' (next_free s)) = compressed (heap s a) \<and>
            pmap (heap s' (next_free s)) = (case p of None \<Rightarrow> pmap (heap s a) | Some q \<Rightarrow> q) \<and>
            (\<forall>ic fence s''. compress ic fence \<lparr>impl = Some (next_free s)\<rparr> s' = Inr s'' \<longrightarrow>
                heap s'' a = heap s a)"
  proof (intro exI [of _ s'] conjI allI impI)
    show "copy send_coeffs p f s = Inr (\<lparr>impl = Some (next_free s)\<rparr>, s')" by (rule c)
    show "Some (next_free s) \<noteq> impl f" using a by auto
    show "next_free s' = Suc (next_free s)" by (simp add: s'_def)
    show "\<And>b. b \<noteq> next_free s \<Longrightarrow> heap s' b = heap s b" by (simp add: s'_def)
    show "nodes (heap s' (next_free s)) = nodes (heap s a)"
      by (simp add: s'_def i_def copy_coeffs_def)
    show "params (heap s' (next_free s)) = params (heap s a)"
      by (simp add: s'_def i_def copy_coeffs_def FunctionImpl_copy_def)
    show "compressed (heap s' (next_free s)) = compressed (heap s a)"
      by (simp add: s'_def i_def copy_coeffs_def FunctionImpl_copy_def)
    show "pmap (heap s' (next_free s)) = (case p of None \<Rightarrow> pmap (heap s a) | Some q \<Rightarrow> q)"
      by (simp add: s'_def i_def copy_coeffs_def FunctionImpl_copy_def)
    show "\<And>ic fence s''. compress ic fence \<lparr>impl = Some (next_free s)\<rparr> s' = Inr s'' \<Longrightarrow>
                heap s'' a = heap s a"
      by (rule ind)
  qed
qed

theorem copy_shallow_and_deep_witness:
  "impl \<lparr>impl = Some 0\<rparr> = Some 0 \<and> 0 < next_free sample_state \<and>
   (\<exists>s'. copy counting_send (Some (\<lambda>k. 3)) \<lparr>impl = Some 0\<rparr> sample_state = Inr (\<lparr>impl = Some 2\<rparr>, s') \<and>
         heap s' 0 = sample_impl \<and>
         nodes (heap s' 2) = nodes sample_impl \<and>
         pmap (heap s' 2) 7 = 3)"
proof -
  have h: "impl \<lparr>impl = Some 0\<rparr> = Some 0 \<and> 0 < next_free sample_state"
    by (simp add: sample_state_def)
  have n: "next_free sample_state = 2" "heap sample_state 0 = sample_impl"
    by (simp_all add: sample_state_def)
  note t = copy_shallow_and_deep [of "\<lparr>impl = Some 0\<rparr>" sample_state 0 0 "\<lambda>h. \<lparr>impl = None\<rparr>"
        counting_send "Some (\<lambda>k. 3)", THEN conjunct2, THEN conjunct2, THEN conjunct2,
        THEN conjunct2, THEN conjunct2, rule_format, OF h]
  then obtain s' where
    c: "copy counting_send (Some (\<lambda>k. 3)) \<lparr>impl = Some 0\<rparr> sample_state = Inr (\<lparr>impl = Some 2\<rparr>, s')"
    and o: "\<forall>b. b \<noteq> 2 \<longrightarrow> heap s' b = heap sample_state b"
    and k: "nodes (heap s' 2) = nodes sample_impl"
    and m: "pmap (heap s' 2) = (\<lambda>k. 3)"
    unfolding n by auto
  have "heap s' 0 = sample_impl"
    using o n by simp
  with h c k m show ?thesis
    by auto
qed

section \<open>Facts about loops that can fail\<close>

lemma bind_Inr: "bind (Inr x) f = f x"
  by (simp add: bind_def)

lemma bind_eq_Inr: "bind m f = Inr y \<Longrightarrow> \<exists>x. m = Inr x \<and> f x = Inr y"
  by (cases m) (simp_all add: bind_def)

lemma mapM_length: "mapM f xs = Inr ys \<Longrightarrow> length ys = length xs"
  by (induction xs arbitrary: ys) (auto simp: bind_def split: sum.splits)

lemma for_upto_length: "for_upto n body = Inr ys \<Longrightarrow> length ys = n"
  by (auto simp: for_upto_def dest: mapM_length)

lemma mapM_all: "mapM f xs = Inr ys \<Longrightarrow> x \<in> set xs \<Longrightarrow> \<exists>y. f x = Inr y"
  by (induction xs arbitrary: ys) (auto simp: bind_def split: sum.splits)

lemma mapM_Inr: "(\<And>x. x \<in> set xs \<Longrightarrow> f x = Inr (g x)) \<Longrightarrow> mapM f xs = Inr (map g xs)"
  by (induction xs) (auto simp: bind_def)

lemma for_upto_Inr:
  "(\<And>j. j < n \<Longrightarrow> body j = Inr (g j)) \<Longrightarrow> for_upto n body = Inr (map g [0..<n])"
  unfolding for_upto_def by (rule mapM_Inr) simp

lemma foldM_append: "foldM f (xs @ ys) s = bind (foldM f xs s) (foldM f ys)"
  by (induction xs arbitrary: s) (auto simp: bind_def split: sum.splits)

text \<open>A property of the loop state that every successful iteration keeps holds at the end.\<close>

lemma foldM_invariant:
  assumes "foldM f xs s = Inr s'" and "P s" and "\<And>x s s'. P s \<Longrightarrow> f x s = Inr s' \<Longrightarrow> P s'"
  shows "P s'"
  using assms(1,2)
proof (induction xs arbitrary: s)
  case Nil
  then show ?case by simp
next
  case (Cons x xs)
  then show ?case
    by (auto simp: bind_def split: sum.splits intro: assms(3))
qed

lemma no_assert_Inr [simp]: "no_assert (Inr x)"
  by (simp add: no_assert_def)

lemma no_assert_Inl [simp]:
  "no_assert (Inl (MadnessException m))" "no_assert (Inl (Thrown m))"
  "no_assert (Inl (TensorException m))" "no_assert (Inl OutOfBounds)"
  "no_assert (Inl NullDereference)"
  by (simp_all add: no_assert_def)

lemma no_assert_bind: "no_assert m \<Longrightarrow> (\<And>x. no_assert (f x)) \<Longrightarrow> no_assert (bind m f)"
  by (cases m) (auto simp: bind_def no_assert_def)

lemma no_assert_rd [simp]: "no_assert (rd p i)"
  by (simp add: rd_def)

lemma no_assert_vec_at [simp]: "no_assert (vec_at v i)"
  by (simp add: vec_at_def)

lemma no_assert_mapM: "(\<And>x. no_assert (f x)) \<Longrightarrow> no_assert (mapM f xs)"
  by (induction xs) (auto intro!: no_assert_bind)

lemma no_assert_for_upto: "(\<And>j. no_assert (body j)) \<Longrightarrow> no_assert (for_upto n body)"
  by (simp add: for_upto_def no_assert_mapM)

lemma no_assert_foldM: "(\<And>x s. no_assert (f x s)) \<Longrightarrow> no_assert (foldM f xs s)"
  by (induction xs arbitrary: s) (auto intro!: no_assert_bind)

lemma no_assert_tensor_zip [simp]: "no_assert (tensor_zip f a b)"
  by (simp add: tensor_zip_def)

lemma no_assert_if:
  "(c \<Longrightarrow> no_assert a) \<Longrightarrow> (\<not> c \<Longrightarrow> no_assert b) \<Longrightarrow> no_assert (if c then a else b)"
  by simp

section \<open>Properties of the exchange-correlation functional\<close>

subsection \<open>Where an assertion can fail\<close>

lemma no_assert_make_libxc_args: "no_assert (make_libxc_args ar env xc t nr)"
  unfolding make_libxc_args_def Let_def
  by (intro no_assert_bind no_assert_if no_assert_for_upto no_assert_vec_at no_assert_rd
      no_assert_Inr no_assert_Inl)

lemma no_assert_nan_check: "no_assert (nan_check ar msg np res)"
  unfolding nan_check_def
  by (intro no_assert_bind no_assert_if no_assert_for_upto no_assert_vec_at no_assert_rd
      no_assert_Inr no_assert_Inl)

lemma no_assert_fxc_call: "no_assert (fxc_call env np rho sigma c func b)"
  unfolding fxc_call_def
  by (cases "family func") (auto split: prod.splits)

lemma no_assert_fxc_result1: "no_assert (fxc_result1 ar xc rho_pt sigma_pt c b)"
  unfolding fxc_result1_def emul_def tensor_add_def
  by (intro no_assert_bind no_assert_if no_assert_tensor_zip no_assert_Inr no_assert_Inl)

lemma no_assert_fxc_step: "no_assert (fxc_step ar env xc np rho sigma rho_pt sigma_pt c fw st)"
  unfolding fxc_step_def tensor_add_def
  by (intro no_assert_bind no_assert_fxc_call no_assert_fxc_result1 no_assert_tensor_zip
      no_assert_Inr)

text \<open>
  C10.  \<^verbatim>\<open>fxc_apply\<close> on a spin-polarized functional fails the first assertion, and on
  an unpolarized one with \<open>ispin\<close> other than 0 the second, whatever the arguments,
  libxc and the arithmetic are: nothing is computed before.  On an unpolarized functional
  with \<open>ispin = 0\<close> no assertion fails: the function returns or leaves by another
  failure.
\<close>

theorem fxc_apply_assertions:
  "(spin_polarized xc \<longrightarrow>
      fxc_apply ar env xc t ispin c = Inl (AssertionFailure ''!spin_polarized'')) \<and>
   (\<not> spin_polarized xc \<and> ispin \<noteq> 0 \<longrightarrow>
      fxc_apply ar env xc t ispin c = Inl (AssertionFailure ''ispin==0'')) \<and>
   (\<not> spin_polarized xc \<and> ispin = 0 \<longrightarrow>
      (\<forall>msg. fxc_apply ar env xc t ispin c \<noteq> Inl (AssertionFailure msg)))"
proof (intro conjI impI)
  assume "spin_polarized xc"
  then show "fxc_apply ar env xc t ispin c = Inl (AssertionFailure ''!spin_polarized'')"
    by (simp add: fxc_apply_def)
next
  assume "\<not> spin_polarized xc \<and> ispin \<noteq> 0"
  then show "fxc_apply ar env xc t ispin c = Inl (AssertionFailure ''ispin==0'')"
    by (simp add: fxc_apply_def)
next
  assume a: "\<not> spin_polarized xc \<and> ispin = 0"
  have "no_assert (fxc_apply ar env xc t ispin c)"
    using a unfolding fxc_apply_def Let_def
    by (auto simp: split_def intro!: no_assert_bind no_assert_make_libxc_args no_assert_foldM
        no_assert_fxc_step no_assert_nan_check)
  then show "\<forall>msg. fxc_apply ar env xc t ispin c \<noteq> Inl (AssertionFailure msg)"
    by (simp add: no_assert_def)
qed

text \<open>A run under the preconditions that returns a value.\<close>

lemma fxc_apply_sample_runs:
  "fxc_apply binary64 sample_env sample_lda [[Fin 3 0], [], [Fin 5 0]] 0 kernel_second_local =
     Inr [Fin 30 0]"
  by code_simp

theorem fxc_apply_assertions_witness:
  "spin_polarized (sample_lda\<lparr>spin_polarized := True\<rparr>) \<and>
   fxc_apply binary64 sample_env (sample_lda\<lparr>spin_polarized := True\<rparr>) [[Fin 3 0], [], [Fin 5 0]] 0
       kernel_second_local = Inl (AssertionFailure ''!spin_polarized'') \<and>
   \<not> spin_polarized sample_lda \<and> (1::int) \<noteq> 0 \<and>
   fxc_apply binary64 sample_env sample_lda [[Fin 3 0], [], [Fin 5 0]] 1 kernel_second_local =
       Inl (AssertionFailure ''ispin==0'') \<and>
   (\<forall>msg. fxc_apply binary64 sample_env sample_lda [[Fin 3 0], [], [Fin 5 0]] 0 kernel_second_local
       \<noteq> Inl (AssertionFailure msg))"
proof -
  have p: "spin_polarized (sample_lda\<lparr>spin_polarized := True\<rparr>)"
    by simp
  have u: "\<not> spin_polarized sample_lda"
    by (simp add: sample_lda_def)
  show ?thesis
    using p u
      fxc_apply_assertions [of "sample_lda\<lparr>spin_polarized := True\<rparr>" binary64 sample_env
        "[[Fin 3 0], [], [Fin 5 0]]" 0 kernel_second_local]
      fxc_apply_assertions [of sample_lda binary64 sample_env
        "[[Fin 3 0], [], [Fin 5 0]]" 1 kernel_second_local]
      fxc_apply_assertions [of sample_lda binary64 sample_env
        "[[Fin 3 0], [], [Fin 5 0]]" 0 kernel_second_local]
    by simp
qed

subsection \<open>The NaN check\<close>

text \<open>
  When the closing loop of \<^verbatim>\<open>vxc\<close> or \<^verbatim>\<open>fxc_apply\<close> lets an array of \<open>np\<close> elements
  pass, none of its elements is a NaN.
\<close>

lemma nan_check_ok:
  assumes "nan_check ar msg np res = Inr u" and "length res = np"
  shows "\<forall>x \<in> set res. \<not> isnan_x ar x"
proof
  fix x
  assume "x \<in> set res"
  then obtain j where j: "j < length res" "res ! j = x"
    by (auto simp: in_set_conv_nth)
  from assms(1) obtain us where
    "mapM (\<lambda>j. bind (rd res (int j)) (\<lambda>r.
        if isnan_x ar r then Inl (MadnessException msg) else Inr ())) [0..<np] = Inr us"
    by (auto simp: nan_check_def for_upto_def bind_def split: sum.splits)
  from mapM_all [OF this, of j] j assms(2)
  show "\<not> isnan_x ar x"
    by (auto simp: rd_def bind_def split: if_splits)
qed

lemma vxc_step_length:
  "vxc_step ar env xc np dens sig ispin c fw res = Inr res' \<Longrightarrow> length res' = np"
  unfolding vxc_step_def Let_def
  by (cases "family (fst fw)") (auto split: if_splits dest: for_upto_length)

lemma vxc_loop_no_nan:
  assumes f: "foldM (vxc_step ar env xc np rho sigma ispin c) fs (zeros ar np) = Inr res"
    and n: "nan_check ar msg np res = Inr u"
  shows "\<forall>x \<in> set res. \<not> isnan_x ar x"
proof -
  have "length res = np"
    by (rule foldM_invariant [OF f, where P = "\<lambda>r. length r = np"])
      (auto simp: zeros_def dest: vxc_step_length)
  with n show ?thesis
    by (rule nan_check_ok)
qed

text \<open>\<^verbatim>\<open>vxc\<close> never returns an array that holds a NaN.\<close>

lemma vxc_result_has_no_nan:
  assumes "vxc ar env xc t ispin c = Inr res"
  shows "\<forall>x \<in> set res. \<not> isnan_x ar x"
  using assms
  by (auto simp: vxc_def bind_def Let_def split: sum.splits prod.splits dest: vxc_loop_no_nan)

lemma tensor_zip_length: "tensor_zip f a b = Inr r \<Longrightarrow> length r = length a"
  by (auto simp: tensor_zip_def split: if_splits)

lemma fxc_step_length:
  "fxc_step ar env xc np rho sigma rho_pt sigma_pt c fw st = Inr st' \<Longrightarrow>
     length (snd st') = length (snd st)"
  by (auto simp: fxc_step_def bind_def tensor_add_def split: sum.splits dest: tensor_zip_length)

lemma fxc_loop_no_nan:
  assumes f: "foldM (fxc_step ar env xc np rho sigma rho_pt sigma_pt c) fs (b0, zeros ar np) = Inr st"
    and n: "nan_check ar msg np (snd st) = Inr u"
  shows "\<forall>x \<in> set (snd st). \<not> isnan_x ar x"
proof -
  have "length (snd st) = np"
    by (rule foldM_invariant [OF f, where P = "\<lambda>s. length (snd s) = np"])
      (auto simp: zeros_def dest: fxc_step_length)
  with n show ?thesis
    by (rule nan_check_ok)
qed

text \<open>\<^verbatim>\<open>fxc_apply\<close> never returns an array that holds a NaN.\<close>

lemma fxc_apply_result_has_no_nan:
  assumes "fxc_apply ar env xc t ispin c = Inr res"
  shows "\<forall>x \<in> set res. \<not> isnan_x ar x"
  using assms
  by (auto simp: fxc_apply_def bind_def Let_def split: sum.splits prod.splits if_splits
      dest: fxc_loop_no_nan)

text \<open>
  C4.  \<^verbatim>\<open>exc\<close> has no such loop.  On the unpolarized LDA functional and the density
  array \<open>[3, NaN, 0]\<close> it returns an array whose second element is a NaN: the density
  enters the product \<^verbatim>\<open>work[j]*dens[j]*funcs[i].second\<close>, so the NaN reaches the result
  whatever libxc wrote into \<^verbatim>\<open>work\<close>.  On the same input \<^verbatim>\<open>vxc\<close> and \<^verbatim>\<open>fxc_apply\<close>, whose
  libxc routines here pass the NaN on, throw at their check.
\<close>

theorem exc_returns_nan:
  "exc binary64 sample_env sample_lda [[Fin 3 0, NaN, Fin 0 0]] = Inr [Fin 36 0, NaN, Fin 0 0] \<and>
   isnan_x binary64 NaN \<and>
   vxc binary64 sample_env sample_lda [[Fin 3 0, NaN, Fin 0 0]] 0 potential_rho =
     Inl (MadnessException ''NaN in xcfunctional::vxc'') \<and>
   fxc_apply binary64 sample_env sample_lda
       [[Fin 3 0, NaN, Fin 0 0], [], [Fin 5 0, Fin 5 0, Fin 5 0]] 0 kernel_second_local =
     Inl (MadnessException ''NaN in xcfunctional::fxc_apply'')"
  by code_simp

section \<open>Properties of KAIN\<close>

lemma at2_square:
  "i < length Q \<Longrightarrow> j < length (Q ! i) \<Longrightarrow> at2 Q (int i) (int j) = Inr (Q ! i ! j)"
  by (simp add: at2_def rd_def bind_def)

text \<open>The summation loop adds the elements of \<open>x\<close> from the left, starting from \<open>0.0\<close>.\<close>

lemma sum_loop:
  "n \<le> length x \<Longrightarrow>
   foldM (\<lambda>i sumC. bind (rd x (int i)) (\<lambda>xi. Inr (fadd ar sumC xi))) [0..<n] s =
     Inr (foldl (fadd ar) s (take n x))"
proof (induction n)
  case 0
  then show ?case by simp
next
  case (Suc n)
  then show ?case
    by (simp add: foldM_append bind_def rd_def take_Suc_conv_app_nth)
qed

text \<open>On a square matrix every element access is in range and the loop builds the system.\<close>

lemma KAIN_equations_square:
  assumes "length Q = Suc m" and "\<forall>row \<in> set Q. length row = Suc m"
  shows "KAIN_equations ar Q (int m) =
         Inr (map (\<lambda>i. (fsub ar (Q ! m ! m) (Q ! i ! m),
                 map (\<lambda>j. fadd ar (fsub ar (fsub ar (Q ! i ! j) (Q ! m ! j)) (Q ! i ! m)) (Q ! m ! m))
                   [0..<m])) [0..<m])"
  unfolding KAIN_equations_def nat_int
proof (rule for_upto_Inr)
  fix i
  assume i: "i < m"
  have len: "\<And>k. k < Suc m \<Longrightarrow> length (Q ! k) = Suc m"
    using assms by (metis nth_mem)
  have row: "for_upto m (\<lambda>j.
                   bind (at2 Q (int i) (int j)) (\<lambda>qij. bind (at2 Q (int m) (int j)) (\<lambda>qmj.
                   bind (at2 Q (int i) (int m)) (\<lambda>qim. bind (at2 Q (int m) (int m)) (\<lambda>qmm.
                   Inr (fadd ar (fsub ar (fsub ar qij qmj) qim) qmm)))))) =
        Inr (map (\<lambda>j. fadd ar (fsub ar (fsub ar (Q ! i ! j) (Q ! m ! j)) (Q ! i ! m)) (Q ! m ! m))
                   [0..<m])"
    by (rule for_upto_Inr) (use i assms(1) len in \<open>simp add: at2_square bind_def\<close>)
  show "bind (at2 Q (int m) (int m)) (\<lambda>qmm. bind (at2 Q (int i) (int m)) (\<lambda>qim.
           bind (for_upto m (\<lambda>j.
                   bind (at2 Q (int i) (int j)) (\<lambda>qij. bind (at2 Q (int m) (int j)) (\<lambda>qmj.
                   bind (at2 Q (int i) (int m)) (\<lambda>qim. bind (at2 Q (int m) (int m)) (\<lambda>qmm.
                   Inr (fadd ar (fsub ar (fsub ar qij qmj) qim) qmm))))))) (\<lambda>row.
           Inr (fsub ar qmm qim, row)))) =
        Inr (fsub ar (Q ! m ! m) (Q ! i ! m),
                 map (\<lambda>j. fadd ar (fsub ar (fsub ar (Q ! i ! j) (Q ! m ! j)) (Q ! i ! m)) (Q ! m ! m))
                   [0..<m])"
    unfolding row using i assms(1) len by (simp add: at2_square bind_def)
qed

lemma KAIN_coefficients_Inr:
  assumes "length x = m"
  shows "KAIN_coefficients ar (int (Suc m)) (int m) x =
           Inr (x @ [fsub ar (f1 ar) (foldl (fadd ar) (f0 ar) x)])"
proof -
  have "drop m (zeros ar (Suc m)) = [f0 ar]"
    unfolding zeros_def drop_replicate by simp
  then have "(x @ drop m (zeros ar (Suc m)))[m := v] = x @ [v]" for v
    using assms by (simp add: list_update_append)
  then show ?thesis
    using assms sum_loop [of m x ar "f0 ar"]
    by (simp add: KAIN_coefficients_def bind_Inr del: of_nat_Suc)
qed

lemma KAIN_coefficients_length:
  "KAIN_coefficients ar nvec m x = Inr c \<Longrightarrow> length x = nat m"
  by (auto simp: KAIN_coefficients_def dest!: bind_eq_Inr split: if_splits)

text \<open>Total correctness on a square matrix with at least two rows, given the solver's answer.\<close>

lemma KAIN_square:
  assumes "length Q = Suc (Suc k)" and "\<forall>row \<in> set Q. length row = Suc (Suc k)"
    and "gelss (KAIN_A ar Q) (KAIN_b ar Q) (f1em12 ar) = Inr x" and "length x = Suc k"
  shows "KAIN ar gelss Q = Inr (x @ [fsub ar (f1 ar) (foldl (fadd ar) (f0 ar) x)])"
proof -
  have n: "int (length Q) - 1 = int (Suc k)" "int (length Q) \<noteq> 1" "\<not> int (Suc k) < 0"
    using assms(1) by simp_all
  have A: "map snd (map (\<lambda>i. (fsub ar (Q ! Suc k ! Suc k) (Q ! i ! Suc k),
                 map (\<lambda>j. fadd ar (fsub ar (fsub ar (Q ! i ! j) (Q ! Suc k ! j)) (Q ! i ! Suc k))
                            (Q ! Suc k ! Suc k))
                   [0..<Suc k])) [0..<Suc k]) = KAIN_A ar Q"
    unfolding KAIN_A_def Let_def assms(1) by (simp add: comp_def del: upt_Suc)
  have b: "map fst (map (\<lambda>i. (fsub ar (Q ! Suc k ! Suc k) (Q ! i ! Suc k),
                 map (\<lambda>j. fadd ar (fsub ar (fsub ar (Q ! i ! j) (Q ! Suc k ! j)) (Q ! i ! Suc k))
                            (Q ! Suc k ! Suc k))
                   [0..<Suc k])) [0..<Suc k]) = KAIN_b ar Q"
    unfolding KAIN_b_def Let_def assms(1) by (simp add: comp_def del: upt_Suc)
  have c: "KAIN_coefficients ar (int (length Q)) (int (Suc k)) x =
      Inr (x @ [fsub ar (f1 ar) (foldl (fadd ar) (f0 ar) x)])"
    unfolding assms(1) by (rule KAIN_coefficients_Inr [OF assms(4)])
  show ?thesis
    unfolding KAIN_def Let_def n
    by (simp only: KAIN_equations_square [OF assms(1,2)] bind_Inr A b assms(3) c n
        if_False if_True simp_thms)
qed

text \<open>Whenever \<^verbatim>\<open>KAIN\<close> returns on other than one row, the result has this shape.\<close>

lemma KAIN_returns:
  assumes "KAIN ar gelss Q = Inr c" and "length Q \<noteq> 1"
  shows "\<exists>x. Suc (length x) = length Q \<and> c = x @ [fsub ar (f1 ar) (foldl (fadd ar) (f0 ar) x)]"
proof -
  from assms have m: "\<not> int (length Q) - 1 < 0"
    by (auto simp: KAIN_def Let_def split: if_splits)
  then obtain k where k: "length Q = Suc k"
    by (cases "length Q") auto
  have e: "int (Suc k) - 1 = int k"
    by simp
  from assms k obtain x where x: "KAIN_coefficients ar (int (Suc k)) (int k) x = Inr c"
    by (auto simp: KAIN_def Let_def e simp del: of_nat_Suc dest!: bind_eq_Inr split: if_splits)
  then have l: "length x = k"
    by (auto dest: KAIN_coefficients_length)
  from x have "c = x @ [fsub ar (f1 ar) (foldl (fadd ar) (f0 ar) x)]"
    unfolding KAIN_coefficients_Inr [OF l] by simp
  with l k show ?thesis
    by (intro exI [of _ x]) simp
qed

lemma foldl_plus_sum_list: "foldl (+) s xs = s + sum_list (xs :: rat list)"
  by (induction xs arbitrary: s) simp_all

lemma KAIN_exact_sum:
  assumes "KAIN exact gelss Q = Inr c"
  shows "sum_list c = 1"
proof (cases "length Q = 1")
  case True
  with assms show ?thesis
    by (auto simp: KAIN_def zeros_def exact_def)
next
  case False
  from KAIN_returns [OF assms False] obtain x where "c = x @ [1 - foldl (+) 0 x]"
    by (auto simp: exact_def)
  then show ?thesis
    by (simp add: foldl_plus_sum_list)
qed

text \<open>
  C8, as stated, fails in the arithmetic of \<^verbatim>\<open>double\<close>.  For the Gram matrix with rows
  \<open>(0, 0)\<close> and \<open>(7, 4)\<close> the system is \<open>-3 x = 4\<close>; with the double nearest to
  \<open>-4/3\<close> as its solution, \<^verbatim>\<open>1.0 - sumC\<close> is rounded (to \<^verbatim>\<open>0x1.2aaaaaaaaaaaap+1\<close>), and
  the two coefficients add up to \<open>1 - 2^-52\<close>, exactly and in \<^verbatim>\<open>double\<close> addition
  alike, which is not 1.
\<close>

theorem KAIN_sum_counterexample:
  "KAIN binary64 sample_gelss [[Fin 0 0, Fin 0 0], [Fin 7 0, Fin 4 0]] =
     Inr [Fin (- 6004799503160661) (- 52), Fin 5254199565265578 (- 51)] \<and>
   foldl b64_add (Fin 0 0) [Fin (- 6004799503160661) (- 52), Fin 5254199565265578 (- 51)] =
     Fin 4503599627370495 (- 52) \<and>
   b64_ne (Fin 4503599627370495 (- 52)) (Fin 1 0)"
  by code_simp

text \<open>
  C8, amended.  For a Gram matrix of one row \<^verbatim>\<open>KAIN\<close> returns the single coefficient
  \<open>1.0\<close>.  For a square matrix of \<open>n > 1\<close> rows for which the solver returns a solution
  \<open>x\<close> of \<open>n - 1\<close> coefficients, it returns the vector of length \<open>n\<close> made of \<open>x\<close>
  followed by \<open>1.0 - sumC\<close>, where \<open>sumC\<close> is the sum of \<open>x\<close> accumulated from
  \<open>0.0\<close> in the arithmetic of the element type.  Whenever it returns, the result has as
  many entries as the matrix has rows.  In exact arithmetic (the rationals) the entries of
  every result sum to 1.
\<close>

theorem KAIN_coefficient_vector:
  "(length Q = 1 \<longrightarrow> KAIN ar gelss Q = Inr [f1 ar]) \<and>
   (\<forall>k x. length Q = Suc (Suc k) \<and> (\<forall>row \<in> set Q. length row = Suc (Suc k)) \<and>
          gelss (KAIN_A ar Q) (KAIN_b ar Q) (f1em12 ar) = Inr x \<and> length x = Suc k \<longrightarrow>
      KAIN ar gelss Q = Inr (x @ [fsub ar (f1 ar) (foldl (fadd ar) (f0 ar) x)])) \<and>
   (\<forall>c. KAIN ar gelss Q = Inr c \<longrightarrow> length c = length Q) \<and>
   (\<forall>c. KAIN exact gelss' Q' = Inr c \<longrightarrow> sum_list c = 1)"
proof (intro conjI allI impI)
  assume "length Q = 1"
  then show "KAIN ar gelss Q = Inr [f1 ar]"
    by (simp add: KAIN_def zeros_def)
next
  fix k x
  assume "length Q = Suc (Suc k) \<and> (\<forall>row \<in> set Q. length row = Suc (Suc k)) \<and>
          gelss (KAIN_A ar Q) (KAIN_b ar Q) (f1em12 ar) = Inr x \<and> length x = Suc k"
  then show "KAIN ar gelss Q = Inr (x @ [fsub ar (f1 ar) (foldl (fadd ar) (f0 ar) x)])"
    by (intro KAIN_square) simp_all
next
  fix c
  assume c: "KAIN ar gelss Q = Inr c"
  show "length c = length Q"
  proof (cases "length Q = 1")
    case True
    with c show ?thesis
      by (auto simp: KAIN_def zeros_def)
  next
    case False
    from KAIN_returns [OF c False] show ?thesis
      by auto
  qed
next
  fix c
  assume "KAIN exact gelss' Q' = Inr c"
  then show "sum_list c = 1"
    by (rule KAIN_exact_sum)
qed

theorem KAIN_coefficient_vector_witness:
  "length [[0, 0], [7, 4 :: rat]] = Suc (Suc 0) \<and>
   map length [[0, 0], [7, 4 :: rat]] = [Suc (Suc 0), Suc (Suc 0)] \<and>
   exact_gelss (KAIN_A exact [[0, 0], [7, 4]]) (KAIN_b exact [[0, 0], [7, 4]]) (f1em12 exact) =
     Inr [- 4 / 3] \<and>
   length [- 4 / 3 :: rat] = Suc 0 \<and>
   KAIN exact exact_gelss [[0, 0], [7, 4]] = Inr [- 4 / 3, 7 / 3] \<and>
   sum_list [- 4 / 3, 7 / 3 :: rat] = 1 \<and>
   length [[5 :: rat]] = 1 \<and>
   KAIN exact exact_gelss [[5]] = Inr [1]"
proof -
  have h: "length [[0, 0], [7, 4 :: rat]] = Suc (Suc 0) \<and>
      (\<forall>row \<in> set [[0, 0], [7, 4 :: rat]]. length row = Suc (Suc 0)) \<and>
      exact_gelss (KAIN_A exact [[0, 0], [7, 4]]) (KAIN_b exact [[0, 0], [7, 4]]) (f1em12 exact) =
        Inr [- 4 / 3] \<and>
      length [- 4 / 3 :: rat] = Suc 0"
    by (simp add: KAIN_A_def KAIN_b_def exact_def exact_gelss_def)
  have o: "length [[5 :: rat]] = 1"
    by simp
  note t = KAIN_coefficient_vector [of "[[0, 0], [7, 4]]" exact exact_gelss exact_gelss
      "[[0, 0], [7, 4]]"]
  note t1 = KAIN_coefficient_vector [of "[[5]]" exact exact_gelss exact_gelss "[[5]]"]
  have r: "KAIN exact exact_gelss [[0, 0], [7, 4]] = Inr [- 4 / 3, 7 / 3]"
    using t [THEN conjunct2, THEN conjunct1, rule_format, OF h] by (simp add: exact_def)
  have s: "sum_list [- 4 / 3, 7 / 3 :: rat] = 1"
    using t [THEN conjunct2, THEN conjunct2, THEN conjunct2, rule_format, OF r] .
  have u: "KAIN exact exact_gelss [[5]] = Inr [1]"
    using t1 [THEN conjunct1, rule_format, OF o] by (simp add: exact_def)
  from h r s o u show ?thesis
    by simp
qed

section \<open>Properties of the construction\<close>

lemma refine_inv_init: "refine_inv nu fac ([root_address (ndim fac)], Map.empty)"
  by (simp add: refine_inv_def materialized.root)

lemma refine_inv_step:
  assumes "refine_step nu fac st st'" and "refine_inv nu fac st"
  shows "refine_inv nu fac st'"
  using assms
proof (induction rule: refine_step.induct)
  case (1 xs a ys tree)
  let ?kids = "if splits nu fac a then children a else []"
  let ?tree = "tree(a \<mapsto> project_node nu fac a)"
  from 1 have v: "\<forall>b \<in> dom tree. tree b = Some (project_node nu fac b)"
    and r: "root_address (ndim fac) \<in> dom tree \<union> set (xs @ a # ys)"
    and c: "\<forall>b \<in> dom tree. splits nu fac b \<longrightarrow> set (children b) \<subseteq> dom tree \<union> set (xs @ a # ys)"
    and m: "dom tree \<union> set (xs @ a # ys) \<subseteq> materialized nu fac"
    unfolding refine_inv_def prod.case by blast+
  have p: "dom tree \<union> set (xs @ a # ys) \<subseteq> dom ?tree \<union> set (xs @ ys @ ?kids)"
    by auto
  have v': "\<forall>b \<in> dom ?tree. ?tree b = Some (project_node nu fac b)"
    using v by simp
  have r': "root_address (ndim fac) \<in> dom ?tree \<union> set (xs @ ys @ ?kids)"
    using r p by blast
  have c': "\<forall>b \<in> dom ?tree. splits nu fac b \<longrightarrow> set (children b) \<subseteq> dom ?tree \<union> set (xs @ ys @ ?kids)"
  proof (intro ballI impI)
    fix b
    assume b: "b \<in> dom ?tree" and s: "splits nu fac b"
    show "set (children b) \<subseteq> dom ?tree \<union> set (xs @ ys @ ?kids)"
    proof (cases "b = a")
      case True
      with s show ?thesis by auto
    next
      case False
      with b have "b \<in> dom tree" by simp
      with c s have "set (children b) \<subseteq> dom tree \<union> set (xs @ a # ys)" by blast
      with p show ?thesis by blast
    qed
  qed
  have a: "a \<in> materialized nu fac"
    using m by simp
  have "set ?kids \<subseteq> materialized nu fac"
    using a by (auto intro: materialized.child)
  with m have m': "dom ?tree \<union> set (xs @ ys @ ?kids) \<subseteq> materialized nu fac"
    by auto
  from v' r' c' m' show ?case
    unfolding refine_inv_def prod.case by blast
qed

lemma refine_inv_steps:
  assumes "rtranclp (refine_step nu fac) st st'" and "refine_inv nu fac st"
  shows "refine_inv nu fac st'"
  using assms by (induction rule: rtranclp_induct) (auto intro: refine_inv_step)

lemma refine_inv_final:
  assumes "refine_inv nu fac ([], tree)"
  shows "tree = (\<lambda>b. if b \<in> materialized nu fac then Some (project_node nu fac b) else None)"
proof -
  have sub: "b \<in> dom tree" if "b \<in> materialized nu fac" for b
    using that
  proof (induction rule: materialized.induct)
    case root
    then show ?case using assms by (simp add: refine_inv_def)
  next
    case (child a c)
    then show ?case using assms by (auto simp: refine_inv_def)
  qed
  show ?thesis
  proof
    fix b
    show "tree b = (if b \<in> materialized nu fac then Some (project_node nu fac b) else None)"
      using assms sub [of b] by (auto simp: refine_inv_def)
  qed
qed

lemma children_level: "c \<in> set (children a) \<Longrightarrow> fst c = Suc (fst a)"
  by (auto simp: children_def)

lemma refine_terminates:
  "\<exists>t. rtranclp (refine_step nu fac) (pending, tree) ([], t)"
proof (induction "mset (map (height fac) pending)" arbitrary: pending tree
    rule: wf_induct [OF wf_mult1 [OF wf_less]])
  case (1 pending tree)
  show ?case
  proof (cases pending)
    case Nil
    then show ?thesis by auto
  next
    case (Cons a ys)
    let ?kids = "if splits nu fac a then children a else []"
    have s: "refine_step nu fac (pending, tree) (ys @ ?kids, tree(a \<mapsto> project_node nu fac a))"
      using refine_step.intros [of nu fac "[]" a ys tree] Cons by simp
    have "\<forall>c \<in> set ?kids. height fac c < height fac a"
      by (auto simp: splits_def height_def dest: children_level)
    then have "(mset (map (height fac) (ys @ ?kids)), mset (map (height fac) pending)) \<in> mult1 {(x, y). x < y}"
      unfolding Cons
      by (intro mult1I [where a = "height fac a" and ?M0.0 = "mset (map (height fac) ys)"
            and K = "mset (map (height fac) ?kids)"]) auto
    from 1 [rule_format, OF this refl] obtain t where
      "rtranclp (refine_step nu fac) (ys @ ?kids, tree(a \<mapsto> project_node nu fac a)) ([], t)"
      by blast
    with s show ?thesis
      by (blast intro: converse_rtranclp_into_rtranclp)
  qed
qed



text \<open>
  C7.  Construction is deterministic: for given numerical kernels, factory (callback,
  threshold, order, level cap, refine flag) and distribution map, a construction
  completes whatever the order in which the waiting boxes are processed, any two
  completed constructions give the same container (the same materialized Addresses with
  the same nodes), and that container is in the reconstructed representation.
\<close>

theorem construction_deterministic:
  "(\<exists>i. constructed nu fac pm i) \<and>
   (\<forall>i1 i2. constructed nu fac pm i1 \<and> constructed nu fac pm i2 \<longrightarrow> i1 = i2) \<and>
   (\<forall>i. constructed nu fac pm i \<longrightarrow> \<not> compressed i)"
proof (intro conjI allI impI)
  from refine_terminates [of nu fac "[root_address (ndim fac)]" Map.empty]
  show "\<exists>i. constructed nu fac pm i"
    unfolding constructed_def constructs_def by blast
next
  fix i1 i2
  assume "constructed nu fac pm i1 \<and> constructed nu fac pm i2"
  then obtain t1 t2 where c1: "constructs nu fac t1" and c2: "constructs nu fac t2"
    and i: "i1 = \<lparr>params = fac, compressed = False, pmap = pm, nodes = t1\<rparr>"
      "i2 = \<lparr>params = fac, compressed = False, pmap = pm, nodes = t2\<rparr>"
    unfolding constructed_def by blast
  have i1: "refine_inv nu fac ([], t1)"
    using c1 unfolding constructs_def by (rule refine_inv_steps) (rule refine_inv_init)
  have i2: "refine_inv nu fac ([], t2)"
    using c2 unfolding constructs_def by (rule refine_inv_steps) (rule refine_inv_init)
  have "t1 = t2"
    using refine_inv_final [OF i1] refine_inv_final [OF i2] by simp
  with i show "i1 = i2"
    by simp
next
  fix i
  assume "constructed nu fac pm i"
  then show "\<not> compressed i"
    unfolding constructed_def by auto
qed

lemma sample_schedule:
  "constructs sample_numerics sample_factory sample_tree"
proof -
  have c: "children (0, [0]) = [(1, [0]), (1, [1])]"
    by (simp add: children_def)
  have s1: "refine_step sample_numerics sample_factory ([(0, [0])], Map.empty)
      ([(1, [0]), (1, [1])], [(0, [0]) \<mapsto> \<lparr>coeff = None, has_children = True\<rparr>])"
    using refine_step.intros [of sample_numerics sample_factory "[]" "(0, [0])" "[]" Map.empty]
    by (simp add: c splits_def project_node_def sample_numerics_def sample_factory_def)
  have s2: "refine_step sample_numerics sample_factory
      ([(1, [0]), (1, [1])], [(0, [0]) \<mapsto> \<lparr>coeff = None, has_children = True\<rparr>])
      ([(1, [1])], [(0, [0]) \<mapsto> \<lparr>coeff = None, has_children = True\<rparr>,
                    (1, [0]) \<mapsto> \<lparr>coeff = Some 5, has_children = False\<rparr>])"
    using refine_step.intros [of sample_numerics sample_factory "[]" "(1, [0])" "[(1, [1])]"
        "[(0, [0]) \<mapsto> \<lparr>coeff = None, has_children = True\<rparr>]"]
    by (simp add: splits_def project_node_def sample_numerics_def sample_factory_def)
  have s3: "refine_step sample_numerics sample_factory
      ([(1, [1])], [(0, [0]) \<mapsto> \<lparr>coeff = None, has_children = True\<rparr>,
                    (1, [0]) \<mapsto> \<lparr>coeff = Some 5, has_children = False\<rparr>])
      ([], sample_tree)"
    using refine_step.intros [of sample_numerics sample_factory "[]" "(1, [1])" "[]"
        "[(0, [0]) \<mapsto> \<lparr>coeff = None, has_children = True\<rparr>,
          (1, [0]) \<mapsto> \<lparr>coeff = Some 5, has_children = False\<rparr>]"]
    by (simp add: splits_def project_node_def sample_numerics_def sample_factory_def sample_tree_def)
  from s1 s2 s3 show ?thesis
    unfolding constructs_def by (simp add: root_address_def sample_factory_def)
qed

lemma sample_schedule':
  "constructs sample_numerics sample_factory sample_tree'"
proof -
  have c: "children (0, [0]) = [(1, [0]), (1, [1])]"
    by (simp add: children_def)
  have s1: "refine_step sample_numerics sample_factory ([(0, [0])], Map.empty)
      ([(1, [0]), (1, [1])], [(0, [0]) \<mapsto> \<lparr>coeff = None, has_children = True\<rparr>])"
    using refine_step.intros [of sample_numerics sample_factory "[]" "(0, [0])" "[]" Map.empty]
    by (simp add: c splits_def project_node_def sample_numerics_def sample_factory_def)
  have s2: "refine_step sample_numerics sample_factory
      ([(1, [0]), (1, [1])], [(0, [0]) \<mapsto> \<lparr>coeff = None, has_children = True\<rparr>])
      ([(1, [0])], [(0, [0]) \<mapsto> \<lparr>coeff = None, has_children = True\<rparr>,
                    (1, [1]) \<mapsto> \<lparr>coeff = Some 6, has_children = False\<rparr>])"
    using refine_step.intros [of sample_numerics sample_factory "[(1, [0])]" "(1, [1])" "[]"
        "[(0, [0]) \<mapsto> \<lparr>coeff = None, has_children = True\<rparr>]"]
    by (simp add: splits_def project_node_def sample_numerics_def sample_factory_def)
  have s3: "refine_step sample_numerics sample_factory
      ([(1, [0])], [(0, [0]) \<mapsto> \<lparr>coeff = None, has_children = True\<rparr>,
                    (1, [1]) \<mapsto> \<lparr>coeff = Some 6, has_children = False\<rparr>])
      ([], sample_tree')"
    using refine_step.intros [of sample_numerics sample_factory "[]" "(1, [0])" "[]"
        "[(0, [0]) \<mapsto> \<lparr>coeff = None, has_children = True\<rparr>,
          (1, [1]) \<mapsto> \<lparr>coeff = Some 6, has_children = False\<rparr>]"]
    by (simp add: splits_def project_node_def sample_numerics_def sample_factory_def sample_tree'_def)
  from s1 s2 s3 show ?thesis
    unfolding constructs_def by (simp add: root_address_def sample_factory_def)
qed

theorem construction_deterministic_witness:
  "constructed sample_numerics sample_factory (\<lambda>a. 0)
     \<lparr>params = sample_factory, compressed = False, pmap = (\<lambda>a. 0), nodes = sample_tree\<rparr> \<and>
   constructed sample_numerics sample_factory (\<lambda>a. 0)
     \<lparr>params = sample_factory, compressed = False, pmap = (\<lambda>a. 0), nodes = sample_tree'\<rparr> \<and>
   sample_tree = sample_tree'"
proof -
  have a: "constructed sample_numerics sample_factory (\<lambda>a. 0)
     \<lparr>params = sample_factory, compressed = False, pmap = (\<lambda>a. 0), nodes = sample_tree\<rparr>"
    unfolding constructed_def using sample_schedule by blast
  have b: "constructed sample_numerics sample_factory (\<lambda>a. 0)
     \<lparr>params = sample_factory, compressed = False, pmap = (\<lambda>a. 0), nodes = sample_tree'\<rparr>"
    unfolding constructed_def using sample_schedule' by blast
  from construction_deterministic [of sample_numerics sample_factory "\<lambda>a. 0",
      THEN conjunct2, THEN conjunct1, rule_format, OF conjI, OF a b]
  have "sample_tree = sample_tree'"
    by simp
  with a b show ?thesis
    by simp
qed

end
